theory Spec2Isabelle
  imports Main "HOL-Library.Word" "HOL-Library.AList"
begin

unbundle bit_operations_syntax

section \<open>Shared: the log\<close>

text \<open>Messages written by \<^verbatim>\<open>ni_error\<close> and \<^verbatim>\<open>ni_warn\<close>, in order. Debug traces are left out.\<close>

datatype ni_log = Ni_error string | Ni_warn string

section \<open>Configuration parsing (src/config.c): collaborators\<close>

text \<open>
  Modelled from the spec: the XML document reader is not part of the sources. The spec
  gives its interface: a tree of nodes, each with a name, named attributes, text content
  and children in document order; \<^verbatim>\<open>xml_node_get_child\<close> returns the named child (the first
  one of that name) and \<^verbatim>\<open>xml_node_get_attr\<close> the node's named attribute, NULL when absent.
\<close>

datatype xml_node =
  Xml_node (node_name: string) (node_attrs: "(string \<times> string) list")
    (node_cdata: "string option") (node_children: "xml_node list")

datatype xml_document = Xml_document (root: xml_node)

definition xml_node_get_child :: "xml_node \<Rightarrow> string \<Rightarrow> xml_node option" where
  "xml_node_get_child node name = find (\<lambda>child. node_name child = name) (node_children node)"

definition xml_node_get_attr :: "xml_node \<Rightarrow> string \<Rightarrow> string option" where
  "xml_node_get_attr node name = map_of (node_attrs node) name"

text \<open>
  Parsed values that the code only stores: an address as its bytes, a parametrized
  expression as the text it was parsed from, a REST node as its address.
\<close>

type_synonym ni_address = "nat list"

datatype xpath_format = Xpath_format string

type_synonym rest_node_ptr = nat

text \<open>
  The functions, macros and constants that config.c uses and the sources do not hold are
  parameters of the model, collected in one record. \<open>strtol\<close> stands for the
  libc call with base 0 and no end pointer and gives the \<^verbatim>\<open>long\<close> that it returns;
  \<open>strtoul\<close> likewise, read as the value that the assignment stores in the field;
  \<open>ni_parse_int\<close> takes the text and the old value of the variable and returns the new
  one; the name-to-code functions return a negative number for a name they do not know,
  and a parser that fails returns \<open>None\<close> where the C function returns NULL or a negative
  number.
\<close>

record ni_externals =
  strtol :: "string \<Rightarrow> int"
  strtoul :: "string \<Rightarrow> nat"
  ni_parse_int :: "string \<Rightarrow> nat \<Rightarrow> nat"
  ni_address_parse :: "string \<Rightarrow> ni_address option"
  ni_addrconf_name_to_update_target :: "string \<Rightarrow> int"
  ni_addrconf_name_to_type :: "string \<Rightarrow> int"
  ni_linktype_name_to_type :: "string \<Rightarrow> int"
  xpath_format_parse :: "string \<Rightarrow> xpath_format option"
  ni_system_update_capabilities :: "32 word"
  ni_wicked_rest_lookup :: "string \<Rightarrow> rest_node_ptr option"
  NI_DHCP_SERVER_PREFERENCES_MAX :: nat
  NI_AF_MASK_IPV4 :: "32 word"
  NI_AF_MASK_IPV6 :: "32 word"

text \<open>
  \<^verbatim>\<open>strtok\<close> called until it returns NULL yields the maximal non-empty runs of characters
  other than the delimiter, in order.
\<close>

fun split_tokens :: "char \<Rightarrow> string \<Rightarrow> string list" where
  "split_tokens d [] = [[]]"
| "split_tokens d (c # cs) =
     (if c = d then [] # split_tokens d cs
      else (case split_tokens d cs of
              [] \<Rightarrow> [[c]]
            | t # ts \<Rightarrow> (c # t) # ts))"

definition strtok_tokens :: "char \<Rightarrow> string \<Rightarrow> string list" where
  "strtok_tokens d s = filter (\<lambda>t. t \<noteq> []) (split_tokens d s)"

section \<open>Configuration parsing: the data model\<close>

record ni_afinfo =
  af_family :: int
  af_enabled :: int
  af_forwarding :: int

record ni_config_fslocation =
  fs_path :: "string option"
  fs_mode :: nat

record ni_server_preference =
  pref_address :: ni_address
  weight :: int

text \<open>
  \<open>preferred_server\<close> is the fixed array of \<open>NI_DHCP_SERVER_PREFERENCES_MAX\<close> entries,
  \<open>num_preferred_servers\<close> the number of entries in use. The update masks are
  \<^verbatim>\<open>unsigned int\<close>: 32-bit words.
\<close>

record ni_config_dhcp =
  vendor_class :: "string option"
  lease_time :: nat
  ignore_servers :: "string list"
  num_preferred_servers :: nat
  preferred_server :: "ni_server_preference list"
  allow_update :: "32 word"

record ni_script_action =
  action_name :: string
  action_command :: "xpath_format option"

record ni_extension =
  ext_name :: string
  ext_type :: int
  supported_af :: "32 word"
  pid_file_path :: "xpath_format option"
  actions :: "ni_script_action list"
  environment :: "xpath_format list"

record ni_config =
  ipv4 :: ni_afinfo
  ipv6 :: ni_afinfo
  pidfile :: ni_config_fslocation
  socket :: ni_config_fslocation
  default_syntax :: "string option"
  default_syntax_path :: "string option"
  default_allow_update :: "32 word"
  dhcp :: ni_config_dhcp
  ibft_allow_update :: "32 word"
  autoip_allow_update :: "32 word"
  recv_max :: nat
  addrconf_extensions :: "ni_extension list"
  linktype_extensions :: "ni_extension list"
  api_extensions :: "ni_extension list"

definition AF_INET :: int where
  "AF_INET = 2"

definition AF_INET6 :: int where
  "AF_INET6 = 10"

text \<open>\<^verbatim>\<open>ni_config_new\<close>: \<^verbatim>\<open>calloc\<close> zeroes every field, then the defaults are set.\<close>

definition ni_config_new :: "ni_externals \<Rightarrow> ni_config" where
  "ni_config_new X =
     \<lparr>ipv4 = \<lparr>af_family = AF_INET, af_enabled = 1, af_forwarding = 0\<rparr>,
      ipv6 = \<lparr>af_family = AF_INET6, af_enabled = 1, af_forwarding = 0\<rparr>,
      pidfile = \<lparr>fs_path = None, fs_mode = 0\<rparr>,
      socket = \<lparr>fs_path = None, fs_mode = 0\<rparr>,
      default_syntax = None,
      default_syntax_path = None,
      default_allow_update = NOT 0,
      dhcp = \<lparr>vendor_class = None, lease_time = 0, ignore_servers = [],
               num_preferred_servers = 0,
               preferred_server =
                 replicate (NI_DHCP_SERVER_PREFERENCES_MAX X) \<lparr>pref_address = [], weight = 0\<rparr>,
               allow_update = NOT 0\<rparr>,
      ibft_allow_update = NOT 0,
      autoip_allow_update = NOT 0,
      recv_max = 64 * 1024,
      addrconf_extensions = [],
      linktype_extensions = [],
      api_extensions = []\<rparr>"

section \<open>Configuration parsing: update targets and DHCP\<close>

text \<open>
  \<^verbatim>\<open>ni_config_parse_update_targets\<close>: the loop over the children of the node. The shift
  \<^verbatim>\<open>1 << target\<close> is defined in C for shift counts below the width of the mask only; the
  properties below are stated for target codes below 32.
\<close>

fun parse_update_targets_children ::
  "ni_externals \<Rightarrow> xml_node list \<Rightarrow> 32 word \<Rightarrow> ni_log list \<Rightarrow> int \<times> 32 word \<times> ni_log list" where
  "parse_update_targets_children X [] update_mask lg = (0, update_mask, lg)"
| "parse_update_targets_children X (child # rest) update_mask lg =
     (if node_name child = ''all'' then
        parse_update_targets_children X rest (NOT 0) lg
      else if node_name child = ''none'' then
        parse_update_targets_children X rest 0 lg
      else
        (let target = ni_addrconf_name_to_update_target X (node_name child) in
         if target \<ge> 0 then
           parse_update_targets_children X rest (update_mask OR push_bit (nat target) 1) lg
         else
           parse_update_targets_children X rest update_mask
             (lg @ [Ni_warn (''ignoring unknown addrconf update target '' @ [CHR 0x22]
                      @ node_name child @ [CHR 0x22])])))"

definition ni_config_parse_update_targets ::
  "ni_externals \<Rightarrow> 32 word \<Rightarrow> xml_node \<Rightarrow> ni_log list \<Rightarrow> int \<times> 32 word \<times> ni_log list" where
  "ni_config_parse_update_targets X update_mask node lg =
     parse_update_targets_children X (node_children node) update_mask lg"

text \<open>
  The field \<open>weight\<close> is an \<^verbatim>\<open>int\<close> (the code prints it with \<^verbatim>\<open>%d\<close>) and \<^verbatim>\<open>strtol\<close> returns a
  \<^verbatim>\<open>long\<close> of 64 bits: the assignment \<^verbatim>\<open>pref->weight = strtol(attrval, NULL, 0)\<close> keeps the low
  32 bits of the value, read as two's complement. Values in the range of \<^verbatim>\<open>int\<close> are unchanged.
\<close>

definition long_to_int :: "int \<Rightarrow> int" where
  "long_to_int v = sint (word_of_int v :: 32 word)"

text \<open>
  The weight of a \<^verbatim>\<open><prefer-server>\<close> element (lines 203 to 218 of config.c), from its
  \<open>weight\<close> attribute. The comparison with 100 is made on the field, after the conversion.
\<close>

definition prefer_server_weight ::
  "ni_externals \<Rightarrow> string option \<Rightarrow> ni_log list \<Rightarrow> int \<times> ni_log list" where
  "prefer_server_weight X attrval lg =
     (case attrval of
        None \<Rightarrow> (100, lg)
      | Some a \<Rightarrow>
          if a = ''always'' then (100, lg)
          else if a = ''never'' then (- 1, lg)
          else
            (let w = long_to_int (strtol X a) in
             if w > 100 then
               (100, lg @ [Ni_warn ''preferred dhcp server weight exceeds max, clamping to 100''])
             else (w, lg)))"

text \<open>The last statement of the loop body: \<^verbatim>\<open><allow-update>\<close>; the return value is dropped.\<close>

definition dhcp_allow_update ::
  "ni_externals \<Rightarrow> xml_node \<Rightarrow> ni_config_dhcp \<Rightarrow> ni_log list \<Rightarrow> ni_config_dhcp \<times> ni_log list" where
  "dhcp_allow_update X child d lg =
     (if node_name child = ''allow-update'' then
        (case ni_config_parse_update_targets X (allow_update d) child lg of
           (rc, update_mask, lg') \<Rightarrow> (d\<lparr>allow_update := update_mask\<rparr>, lg'))
      else (d, lg))"

text \<open>
  The first three statements of the loop body of \<^verbatim>\<open>ni_config_parse_addrconf_dhcp\<close>:
  \<^verbatim>\<open><vendor-class>\<close>, \<^verbatim>\<open><lease-time>\<close> and \<^verbatim>\<open><ignore-server>\<close>. They are separate \<^verbatim>\<open>if\<close>
  statements, run one after the other.
\<close>

definition dhcp_simple_elements :: "ni_externals \<Rightarrow> xml_node \<Rightarrow> ni_config_dhcp \<Rightarrow> ni_config_dhcp" where
  "dhcp_simple_elements X child d =
     (let d1 = (if node_name child = ''vendor-class''
                then d\<lparr>vendor_class := node_cdata child\<rparr> else d);
          d2 = (case node_cdata child of
                  Some cdata \<Rightarrow>
                    if node_name child = ''lease-time''
                    then d1\<lparr>lease_time := strtoul X cdata\<rparr> else d1
                | None \<Rightarrow> d1)
      in
      (case xml_node_get_attr child ''ip'' of
         Some attrval \<Rightarrow>
           if node_name child = ''ignore-server''
           then d2\<lparr>ignore_servers := ignore_servers d2 @ [attrval]\<rparr> else d2
       | None \<Rightarrow> d2))"

text \<open>
  \<^verbatim>\<open>ni_config_parse_addrconf_dhcp\<close>: the loop over the children. \<^verbatim>\<open>continue\<close> skips the rest
  of the body. When \<^verbatim>\<open>ni_address_parse\<close> fails the entry has been claimed already (the
  count is incremented) and the function returns -1.
\<close>

fun parse_dhcp_children ::
  "ni_externals \<Rightarrow> xml_node list \<Rightarrow> ni_config_dhcp \<Rightarrow> ni_log list
     \<Rightarrow> int \<times> ni_config_dhcp \<times> ni_log list" where
  "parse_dhcp_children X [] d lg = (0, d, lg)"
| "parse_dhcp_children X (child # rest) d lg =
     (let d3 = dhcp_simple_elements X child d in
      (case (if node_name child = ''prefer-server'' then xml_node_get_attr child ''ip'' else None) of
         Some attrval \<Rightarrow>
           if num_preferred_servers d3 \<ge> NI_DHCP_SERVER_PREFERENCES_MAX X then
             parse_dhcp_children X rest d3
               (lg @ [Ni_warn ''config: too many <prefer-server> elements''])
           else
             (let index = num_preferred_servers d3;
                  d4 = d3\<lparr>num_preferred_servers := index + 1\<rparr>
              in
              (case ni_address_parse X attrval of
                 None \<Rightarrow>
                   (- 1, d4,
                    lg @ [Ni_error (''config: unable to parse <prefer-server ip='' @ [CHR 0x22]
                            @ attrval @ [CHR 0x22])])
               | Some address \<Rightarrow>
                   (case prefer_server_weight X (xml_node_get_attr child ''weight'') lg of
                      (w, lg5) \<Rightarrow>
                        (case dhcp_allow_update X child
                                (d4\<lparr>preferred_server := (preferred_server d4)
                                      [index := \<lparr>pref_address = address, weight = w\<rparr>]\<rparr>) lg5 of
                           (d6, lg6) \<Rightarrow> parse_dhcp_children X rest d6 lg6))))
       | None \<Rightarrow>
           (case dhcp_allow_update X child d3 lg of
              (d6, lg6) \<Rightarrow> parse_dhcp_children X rest d6 lg6)))"

definition ni_config_parse_addrconf_dhcp ::
  "ni_externals \<Rightarrow> ni_config_dhcp \<Rightarrow> xml_node \<Rightarrow> ni_log list \<Rightarrow> int \<times> ni_config_dhcp \<times> ni_log list" where
  "ni_config_parse_addrconf_dhcp X d node lg = parse_dhcp_children X (node_children node) d lg"

section \<open>Configuration parsing: address families, locations, extensions\<close>

definition ni_config_parse_afinfo :: "ni_afinfo \<Rightarrow> string \<Rightarrow> xml_node \<Rightarrow> int \<times> ni_afinfo" where
  "ni_config_parse_afinfo afi afname node =
     (case xml_node_get_child node afname of
        None \<Rightarrow> (0, afi)
      | Some n \<Rightarrow>
          (let afi1 = (if xml_node_get_child n ''enabled'' \<noteq> None then afi\<lparr>af_enabled := 1\<rparr>
                       else if xml_node_get_child n ''disabled'' \<noteq> None then afi\<lparr>af_enabled := 0\<rparr>
                       else afi);
               afi2 = (if xml_node_get_child n ''forwarding'' \<noteq> None
                       then afi1\<lparr>af_forwarding := 1\<rparr> else afi1)
           in (0, afi2)))"

definition ni_config_parse_fslocation ::
  "ni_externals \<Rightarrow> ni_config_fslocation \<Rightarrow> string \<Rightarrow> xml_node \<Rightarrow> int \<times> ni_config_fslocation" where
  "ni_config_parse_fslocation X fsloc name node =
     (case xml_node_get_child node name of
        None \<Rightarrow> (0, fsloc)
      | Some n \<Rightarrow>
          (let fsloc1 = (case xml_node_get_attr n ''path'' of
                           Some attrval \<Rightarrow> fsloc\<lparr>fs_path := Some attrval\<rparr>
                         | None \<Rightarrow> fsloc);
               fsloc2 = (case xml_node_get_attr n ''mode'' of
                           Some attrval \<Rightarrow> fsloc1\<lparr>fs_mode := ni_parse_int X attrval (fs_mode fsloc1)\<rparr>
                         | None \<Rightarrow> fsloc1)
           in (0, fsloc2)))"

text \<open>
  \<^verbatim>\<open>ni_config_parse_xpath\<close>: the old expression is freed and replaced by the parsed one;
  the result is the return code and the new value of the variable (NULL on failure).
\<close>

definition ni_config_parse_xpath ::
  "ni_externals \<Rightarrow> string \<Rightarrow> ni_log list \<Rightarrow> int \<times> xpath_format option \<times> ni_log list" where
  "ni_config_parse_xpath X expr lg =
     (case xpath_format_parse X expr of
        None \<Rightarrow>
          (- 1, None,
           lg @ [Ni_error (''cannot parse configuration: bad xpath expression '' @ [CHR 0x22]
                   @ expr @ [CHR 0x22])])
      | Some fmt \<Rightarrow> (0, Some fmt, lg))"

text \<open>
  Modelled from the spec: \<^verbatim>\<open>ni_extension_new\<close>, \<^verbatim>\<open>ni_script_action_new\<close> and
  \<^verbatim>\<open>xpath_format_array_append\<close> are not part of the sources. The spec has extensions,
  actions and environment templates in ordered lists: each new element is put at the end
  of its list, with every field but the ones given zeroed.
\<close>

definition ni_extension_new :: "string \<Rightarrow> int \<Rightarrow> ni_extension" where
  "ni_extension_new name type_code =
     \<lparr>ext_name = name, ext_type = type_code, supported_af = 0, pid_file_path = None,
      actions = [], environment = []\<rparr>"

definition ni_script_action_new :: "string \<Rightarrow> ni_script_action" where
  "ni_script_action_new name = \<lparr>action_name = name, action_command = None\<rparr>"

text \<open>
  The loop over the children of one \<^verbatim>\<open><extension>\<close> node. The extension under
  construction is already linked into the list, so a failure returns it as far as it was
  built.
\<close>

fun parse_extension_children ::
  "ni_externals \<Rightarrow> xml_node list \<Rightarrow> ni_extension \<Rightarrow> ni_log list \<Rightarrow> int \<times> ni_extension \<times> ni_log list" where
  "parse_extension_children X [] ex lg = (0, ex, lg)"
| "parse_extension_children X (child # rest) ex lg =
     (if node_name child = ''action'' then
        (case xml_node_get_attr child ''name'' of
           None \<Rightarrow> (- 1, ex, lg @ [Ni_error ''action element without name attribute''])
         | Some attrval \<Rightarrow>
             (let act = ni_script_action_new attrval in
              (case xml_node_get_attr child ''command'' of
                 None \<Rightarrow> parse_extension_children X rest (ex\<lparr>actions := actions ex @ [act]\<rparr>) lg
               | Some command \<Rightarrow>
                   (case ni_config_parse_xpath X command lg of
                      (rc, fmt, lg') \<Rightarrow>
                        if rc < 0 then
                          (- 1, ex\<lparr>actions := actions ex @ [act\<lparr>action_command := fmt\<rparr>]\<rparr>, lg')
                        else
                          parse_extension_children X rest
                            (ex\<lparr>actions := actions ex @ [act\<lparr>action_command := fmt\<rparr>]\<rparr>) lg'))))
      else if node_name child = ''environment'' then
        (case xml_node_get_attr child ''putenv'' of
           None \<Rightarrow> (- 1, ex, lg @ [Ni_error ''environment element without putenv attribute''])
         | Some attrval \<Rightarrow>
             (case ni_config_parse_xpath X attrval lg of
                (rc, fmt, lg') \<Rightarrow>
                  if rc < 0 then (- 1, ex, lg')
                  else
                    parse_extension_children X rest
                      (ex\<lparr>environment := environment ex @ (case fmt of Some f \<Rightarrow> [f] | None \<Rightarrow> [])\<rparr>)
                      lg'))
      else parse_extension_children X rest ex lg)"

text \<open>The \<open>family\<close> attribute: one pass over the comma-separated tokens.\<close>

definition parse_extension_family :: "ni_externals \<Rightarrow> string \<Rightarrow> 32 word \<Rightarrow> 32 word" where
  "parse_extension_family X attrval af =
     foldl (\<lambda>af s.
              (let af1 = (if s = ''ipv4'' then af OR NI_AF_MASK_IPV4 X else af)
               in if s = ''ipv6'' then af1 OR NI_AF_MASK_IPV6 X else af1))
       af (strtok_tokens (CHR '','') attrval)"

text \<open>
  One \<^verbatim>\<open><extension>\<close> node whose name and type are known: the body of the loop of
  \<^verbatim>\<open>ni_config_parse_extensions\<close> from \<^verbatim>\<open>ni_extension_new\<close> on.
\<close>

definition parse_extension_node ::
  "ni_externals \<Rightarrow> xml_node \<Rightarrow> string \<Rightarrow> int \<Rightarrow> ni_log list \<Rightarrow> int \<times> ni_extension \<times> ni_log list" where
  "parse_extension_node X node name type_code lg =
     (let ex = ni_extension_new name type_code;
          ex1 = (case xml_node_get_attr node ''family'' of
                   Some attrval \<Rightarrow> ex\<lparr>supported_af := parse_extension_family X attrval (supported_af ex)\<rparr>
                 | None \<Rightarrow> ex\<lparr>supported_af := NOT 0\<rparr>)
      in
      (case (case xml_node_get_child node ''pidfile'' of
               Some child \<Rightarrow> xml_node_get_attr child ''path''
             | None \<Rightarrow> None) of
         Some attrval \<Rightarrow>
           (case ni_config_parse_xpath X attrval lg of
              (rc, fmt, lg') \<Rightarrow>
                if rc < 0 then (- 1, ex1\<lparr>pid_file_path := fmt\<rparr>, lg')
                else parse_extension_children X (node_children node) (ex1\<lparr>pid_file_path := fmt\<rparr>) lg')
       | None \<Rightarrow> parse_extension_children X (node_children node) ex1 lg))"

text \<open>
  The loop of \<^verbatim>\<open>ni_config_parse_extensions\<close> over the children of the category node.
  \<open>map_type\<close> is the optional function pointer.
\<close>

fun parse_extension_nodes ::
  "ni_externals \<Rightarrow> string \<Rightarrow> (string \<Rightarrow> int) option \<Rightarrow> xml_node list \<Rightarrow> ni_extension list
     \<Rightarrow> ni_log list \<Rightarrow> int \<times> ni_extension list \<times> ni_log list" where
  "parse_extension_nodes X exclass map_type [] list lg = (0, list, lg)"
| "parse_extension_nodes X exclass map_type (node # rest) list lg =
     (if node_name node \<noteq> ''extension'' then
        parse_extension_nodes X exclass map_type rest list lg
      else
        (case xml_node_get_attr node ''name'' of
           None \<Rightarrow>
             (- 1, list,
              lg @ [Ni_error (''cannot parse configuration: '' @ exclass
                      @ '' extension has no name attribute'')])
         | Some name \<Rightarrow>
             (case map_type of
                None \<Rightarrow>
                  (case parse_extension_node X node name 0 lg of
                     (rc, ex, lg') \<Rightarrow>
                       if rc < 0 then (- 1, list @ [ex], lg')
                       else parse_extension_nodes X exclass map_type rest (list @ [ex]) lg')
              | Some f \<Rightarrow>
                  (case xml_node_get_attr node ''type'' of
                     None \<Rightarrow>
                       (- 1, list,
                        lg @ [Ni_error (''cannot parse configuration: '' @ exclass @ '' extension ''
                                @ name @ '' has no type attribute'')])
                   | Some attrval \<Rightarrow>
                       if f attrval < 0 then
                         parse_extension_nodes X exclass map_type rest list
                           (lg @ [Ni_error (exclass @ '' extension type '' @ attrval
                                    @ '' not recognized (ignored)'')])
                       else
                         (case parse_extension_node X node name (f attrval) lg of
                            (rc, ex, lg') \<Rightarrow>
                              if rc < 0 then (- 1, list @ [ex], lg')
                              else parse_extension_nodes X exclass map_type rest (list @ [ex]) lg')))))"

definition ni_config_parse_extensions ::
  "ni_externals \<Rightarrow> ni_extension list \<Rightarrow> xml_node \<Rightarrow> string \<Rightarrow> (string \<Rightarrow> int) option
     \<Rightarrow> ni_log list \<Rightarrow> int \<times> ni_extension list \<times> ni_log list" where
  "ni_config_parse_extensions X list node exclass map_type lg =
     (case xml_node_get_child node exclass of
        None \<Rightarrow> (0, list, lg)
      | Some n \<Rightarrow> parse_extension_nodes X exclass map_type (node_children n) list lg)"

section \<open>Configuration parsing: the whole document\<close>

text \<open>The loop of \<^verbatim>\<open>ni_config_parse\<close> over the children of \<^verbatim>\<open><addrconf>\<close>.\<close>

fun parse_addrconf_children ::
  "ni_externals \<Rightarrow> xml_node list \<Rightarrow> ni_config \<Rightarrow> ni_log list \<Rightarrow> int \<times> ni_config \<times> ni_log list" where
  "parse_addrconf_children X [] conf lg = (0, conf, lg)"
| "parse_addrconf_children X (child # rest) conf lg =
     (case (if node_name child = ''default-allow-update''
            then ni_config_parse_update_targets X (default_allow_update conf) child lg
            else (0, default_allow_update conf, lg)) of
        (rc1, update_mask, lg1) \<Rightarrow>
          if rc1 < 0 then (- 1, conf\<lparr>default_allow_update := update_mask\<rparr>, lg1)
          else
            (case (if node_name child = ''dhcp''
                   then ni_config_parse_addrconf_dhcp X (dhcp conf) child lg1
                   else (0, dhcp conf, lg1)) of
               (rc2, d, lg2) \<Rightarrow>
                 if rc2 < 0 then (- 1, conf\<lparr>default_allow_update := update_mask, dhcp := d\<rparr>, lg2)
                 else
                   parse_addrconf_children X rest
                     (conf\<lparr>default_allow_update := update_mask, dhcp := d\<rparr>) lg2))"

text \<open>The three calls of \<^verbatim>\<open>ni_config_parse_extensions\<close>, joined by \<^verbatim>\<open>||\<close>: the first failure ends the chain.\<close>

definition parse_extension_categories ::
  "ni_externals \<Rightarrow> xml_node \<Rightarrow> ni_config \<Rightarrow> ni_log list \<Rightarrow> int \<times> ni_config \<times> ni_log list" where
  "parse_extension_categories X node conf lg =
     (case ni_config_parse_extensions X (addrconf_extensions conf) node ''addrconf''
             (Some (ni_addrconf_name_to_type X)) lg of
        (rc1, l1, lg1) \<Rightarrow>
          if rc1 < 0 then (- 1, conf\<lparr>addrconf_extensions := l1\<rparr>, lg1)
          else
            (case ni_config_parse_extensions X (linktype_extensions conf) node ''linktype''
                    (Some (ni_linktype_name_to_type X)) lg1 of
               (rc2, l2, lg2) \<Rightarrow>
                 if rc2 < 0 then
                   (- 1, conf\<lparr>addrconf_extensions := l1, linktype_extensions := l2\<rparr>, lg2)
                 else
                   (case ni_config_parse_extensions X (api_extensions conf) node ''api'' None lg2 of
                      (rc3, l3, lg3) \<Rightarrow>
                        (if rc3 < 0 then - 1 else 0,
                         conf\<lparr>addrconf_extensions := l1, linktype_extensions := l2,
                              api_extensions := l3\<rparr>,
                         lg3))))"

text \<open>
  Modelled from the spec: \<^verbatim>\<open>ni_rest_node_add_update_callback\<close> is not part of the sources;
  what it registers is kept as a list of (REST node, extension, action) entries, in the
  order of the calls. The function below is the body of the loop over the API extensions:
  the extension's name with each dot-separated part prefixed by a slash is looked up, and
  every action named \<open>update\<close> is registered with the node found.
\<close>

type_synonym rest_callbacks = "(rest_node_ptr \<times> ni_extension \<times> ni_script_action) list"

definition register_api_extension ::
  "ni_externals \<Rightarrow> rest_callbacks \<times> ni_log list \<Rightarrow> ni_extension \<Rightarrow> rest_callbacks \<times> ni_log list" where
  "register_api_extension X st ex =
     (case st of
        (callbacks, lg) \<Rightarrow>
          (let sbuf = concat (map (\<lambda>sp. CHR ''/'' # sp) (strtok_tokens (CHR ''.'') (ext_name ex)))
           in
           if sbuf = [] then (callbacks, lg)
           else
             (case ni_wicked_rest_lookup X sbuf of
                None \<Rightarrow> (callbacks, lg @ [Ni_warn (''ignoring API extension '' @ ext_name ex)])
              | Some rnode \<Rightarrow>
                  (callbacks @ map (\<lambda>act. (rnode, ex, act))
                                 (filter (\<lambda>act. action_name act = ''update'') (actions ex)),
                   lg))))"

text \<open>
  The first part of \<^verbatim>\<open>ni_config_parse\<close>, from \<^verbatim>\<open>ni_config_new\<close> to the \<^verbatim>\<open><backend>\<close> element:
  the file modes 0644 and 0600, the two address families, the two locations (a failure of
  one of the four calls goes to the label \<^verbatim>\<open>failed\<close>), and the default syntax.
\<close>

definition parse_config_globals :: "ni_externals \<Rightarrow> xml_node \<Rightarrow> int \<times> ni_config" where
  "parse_config_globals X node =
     (let conf0 = ni_config_new X;
          conf1 = conf0\<lparr>pidfile := (pidfile conf0)\<lparr>fs_mode := 420\<rparr>,
                        socket := (socket conf0)\<lparr>fs_mode := 384\<rparr>\<rparr>;
          r4 = ni_config_parse_afinfo (ipv4 conf1) ''ipv4'' node;
          r6 = ni_config_parse_afinfo (ipv6 conf1) ''ipv6'' node;
          rp = ni_config_parse_fslocation X (pidfile conf1) ''pidfile'' node;
          rs = ni_config_parse_fslocation X (socket conf1) ''socket'' node;
          conf2 = conf1\<lparr>ipv4 := snd r4, ipv6 := snd r6, pidfile := snd rp, socket := snd rs\<rparr>
      in
      if fst r4 < 0 \<or> fst r6 < 0 \<or> fst rp < 0 \<or> fst rs < 0 then (- 1, conf2)
      else
        (case xml_node_get_child node ''backend'' of
           None \<Rightarrow> (0, conf2)
         | Some child \<Rightarrow>
             (let c1 = (case xml_node_get_attr child ''schema'' of
                          Some attrval \<Rightarrow> conf2\<lparr>default_syntax := Some attrval\<rparr>
                        | None \<Rightarrow> conf2)
              in (0, (case xml_node_get_attr child ''path'' of
                        Some attrval \<Rightarrow> c1\<lparr>default_syntax_path := Some attrval\<rparr>
                      | None \<Rightarrow> c1)))))"

text \<open>The \<^verbatim>\<open><addrconf>\<close> element of the \<^verbatim>\<open><config>\<close> node, when there is one.\<close>

definition parse_config_addrconf ::
  "ni_externals \<Rightarrow> xml_node \<Rightarrow> ni_config \<Rightarrow> ni_log list \<Rightarrow> int \<times> ni_config \<times> ni_log list" where
  "parse_config_addrconf X node conf lg =
     (case xml_node_get_child node ''addrconf'' of
        None \<Rightarrow> (0, conf, lg)
      | Some child \<Rightarrow> parse_addrconf_children X (node_children child) conf lg)"

text \<open>
  \<^verbatim>\<open>ni_config_parse\<close>. \<open>doc\<close> is what \<^verbatim>\<open>xml_document_read\<close> returned for the file. The result
  is the configuration returned (\<open>None\<close> for NULL, after \<^verbatim>\<open>ni_config_free\<close> at the label
  \<^verbatim>\<open>failed\<close>), the update callbacks registered with the REST nodes, and the log.
\<close>

definition ni_config_parse ::
  "ni_externals \<Rightarrow> string \<Rightarrow> xml_document option \<Rightarrow> rest_callbacks \<Rightarrow> ni_log list
     \<Rightarrow> ni_config option \<times> rest_callbacks \<times> ni_log list" where
  "ni_config_parse X filename doc callbacks lg =
     (case doc of
        None \<Rightarrow> (None, callbacks, lg @ [Ni_error (filename @ '': error parsing configuration file'')])
      | Some d \<Rightarrow>
          (case xml_node_get_child (root d) ''config'' of
             None \<Rightarrow> (None, callbacks, lg @ [Ni_error (filename @ '': no <config> element'')])
           | Some node \<Rightarrow>
               (case parse_config_globals X node of
                  (rc3, conf3) \<Rightarrow>
                    if rc3 < 0 then (None, callbacks, lg)
                    else
                      (case parse_config_addrconf X node conf3 lg of
                         (rc4, conf4, lg4) \<Rightarrow>
                           if rc4 < 0 then (None, callbacks, lg4)
                           else
                             (case parse_extension_categories X node
                                     (conf4\<lparr>default_allow_update :=
                                              default_allow_update conf4
                                                AND ni_system_update_capabilities X\<rparr>)
                                     lg4 of
                                (rc5, conf5, lg5) \<Rightarrow>
                                  if rc5 < 0 then (None, callbacks, lg5)
                                  else
                                    (case foldl (register_api_extension X) (callbacks, lg5)
                                            (api_extensions conf5) of
                                       (callbacks6, lg6) \<Rightarrow> (Some conf5, callbacks6, lg6)))))))"

section \<open>The object model: classes, services, objects (src/dbus-objects/model.c)\<close>

text \<open>
  Class and service descriptors are static C structs that the code compares by address
  (\<^verbatim>\<open>service->compatible == class\<close>), so the model keeps addresses: a pointer is a
  natural number, a NULL pointer is \<open>None\<close>, and the descriptors live in two stores that
  map every address to the struct found there. Only the fields that the functions of
  model.c read are kept. A \<^verbatim>\<open>const char *\<close> that may be NULL is a \<open>string option\<close>.
\<close>

type_synonym class_ptr = nat
type_synonym service_ptr = nat

record ni_dbus_class =
  class_name :: "string option"
  superclass :: "class_ptr option"

record ni_dbus_service =
  service_name :: "string option"
  compatible :: "class_ptr option"

type_synonym class_store = "class_ptr \<Rightarrow> ni_dbus_class"
type_synonym service_store = "service_ptr \<Rightarrow> ni_dbus_service"

text \<open>
  The two registries are arrays with a fill count; the model keeps the filled prefix as a
  list, so \<open>count\<close> is its length.
\<close>

record ni_objectmodel_registry =
  class_registry :: "class_ptr list"
  service_registry :: "service_ptr list"

definition NI_DBUS_SERVICES_MAX :: nat where
  "NI_DBUS_SERVICES_MAX = 128"

definition NI_DBUS_CLASSES_MAX :: nat where
  "NI_DBUS_CLASSES_MAX = 1024"

record ni_dbus_object =
  object_path :: string
  object_class :: "class_ptr option"
  interfaces :: "service_ptr list"

text \<open>
  Modelled from the spec: \<^verbatim>\<open>ni_dbus_object_register_service\<close> is not part of the sources.
  The spec has services attached to an object as a set, by reference: attaching a service
  that the object already carries leaves the object as it is. The list keeps the order of
  attachment.
\<close>

definition ni_dbus_object_register_service :: "ni_dbus_object \<Rightarrow> service_ptr \<Rightarrow> ni_dbus_object" where
  "ni_dbus_object_register_service object service =
     (if service \<in> set (interfaces object) then object
      else object\<lparr>interfaces := interfaces object @ [service]\<rparr>)"

text \<open>
  The inner loop of \<^verbatim>\<open>ni_objectmodel_bind_compatible_interfaces\<close>:
  \<^verbatim>\<open>for (class = object->class; class; class = class->superclass)\<close>, left with \<open>True\<close> at
  the \<^verbatim>\<open>break\<close> and with \<open>False\<close> at the end of the chain. On a cyclic superclass chain that
  holds no match the C loop never ends: the result is \<open>None\<close> then.
\<close>

partial_function (option) compatible_class_walk ::
  "class_store \<Rightarrow> class_ptr option \<Rightarrow> class_ptr option \<Rightarrow> bool option" where
  "compatible_class_walk C want cls =
     (case cls of
        None \<Rightarrow> Some False
      | Some c \<Rightarrow>
          if want = Some c then Some True
          else compatible_class_walk C want (superclass (C c)))"

text \<open>The outer loop, over the service registry from index 0 to \<open>count - 1\<close>.\<close>

fun bind_services ::
  "class_store \<Rightarrow> service_store \<Rightarrow> service_ptr list \<Rightarrow> ni_dbus_object \<Rightarrow> ni_dbus_object option" where
  "bind_services C S [] object = Some object"
| "bind_services C S (service # rest) object =
     (case compatible_class_walk C (compatible (S service)) (object_class object) of
        None \<Rightarrow> None
      | Some found \<Rightarrow>
          bind_services C S rest
            (if found then ni_dbus_object_register_service object service else object))"

definition ni_objectmodel_bind_compatible_interfaces ::
  "class_store \<Rightarrow> service_store \<Rightarrow> ni_objectmodel_registry \<Rightarrow> ni_dbus_object \<Rightarrow> ni_log list
     \<Rightarrow> (bool \<times> ni_dbus_object \<times> ni_log list) option" where
  "ni_objectmodel_bind_compatible_interfaces C S R object lg =
     (if object_class object = None then
        Some (False, object,
          lg @ [Ni_error (''ni_objectmodel_bind_compatible_interfaces: object '' @ [CHR 0x22]
                  @ object_path object @ [CHR 0x22] @ '' without class'')])
      else
        (case bind_services C S (service_registry R) object of
           None \<Rightarrow> None
         | Some object' \<Rightarrow> Some (True, object', lg)))"

text \<open>
  The superclass chain of a class, nearest first, as the claims speak of it: the class,
  its superclass, and so on up to the class without superclass. \<open>None\<close> when the chain is
  cyclic.
\<close>

partial_function (option) superclass_chain ::
  "class_store \<Rightarrow> class_ptr option \<Rightarrow> class_ptr list option" where
  "superclass_chain C cls =
     (case cls of
        None \<Rightarrow> Some []
      | Some c \<Rightarrow> Option.bind (superclass_chain C (superclass (C c))) (\<lambda>cs. Some (c # cs)))"

subsection \<open>The registries\<close>

text \<open>
  Modelled from the spec: the macro \<^verbatim>\<open>ni_assert\<close> is not part of the sources. The spec has
  a failed registration fatal, ending the process; here it is the result \<open>Inl\<close> with the
  text of the failed assertion. Reading a name through a NULL pointer (\<^verbatim>\<open>strcmp\<close> on a
  descriptor without name) ends the process as well.
\<close>

datatype ni_fatal = Assertion_failed string | Null_pointer_read

definition ni_objectmodel_register_service ::
  "service_ptr \<Rightarrow> ni_objectmodel_registry \<Rightarrow> ni_fatal + ni_objectmodel_registry" where
  "ni_objectmodel_register_service service R =
     (let index = length (service_registry R) in
      if \<not> index < NI_DBUS_SERVICES_MAX then Inl (Assertion_failed ''index < NI_DBUS_SERVICES_MAX'')
      else Inr (R\<lparr>service_registry := service_registry R @ [service]\<rparr>))"

definition ni_objectmodel_register_class ::
  "class_store \<Rightarrow> class_ptr \<Rightarrow> ni_objectmodel_registry \<Rightarrow> ni_fatal + ni_objectmodel_registry" where
  "ni_objectmodel_register_class C cls R =
     (let index = length (class_registry R) in
      if class_name (C cls) = None then Inl (Assertion_failed ''class->name'')
      else if \<not> index < NI_DBUS_CLASSES_MAX then Inl (Assertion_failed ''index < NI_DBUS_CLASSES_MAX'')
      else Inr (R\<lparr>class_registry := class_registry R @ [cls]\<rparr>))"

text \<open>The lookups: linear scans from index 0 that return the first match.\<close>

fun service_by_name_scan :: "service_store \<Rightarrow> service_ptr list \<Rightarrow> string \<Rightarrow> ni_fatal + service_ptr option" where
  "service_by_name_scan S [] name = Inr None"
| "service_by_name_scan S (service # rest) name =
     (case service_name (S service) of
        None \<Rightarrow> Inl Null_pointer_read
      | Some n \<Rightarrow> if n = name then Inr (Some service) else service_by_name_scan S rest name)"

definition ni_objectmodel_service_by_name ::
  "service_store \<Rightarrow> ni_objectmodel_registry \<Rightarrow> string \<Rightarrow> ni_fatal + service_ptr option" where
  "ni_objectmodel_service_by_name S R name = service_by_name_scan S (service_registry R) name"

definition ni_objectmodel_service_by_class ::
  "service_store \<Rightarrow> ni_objectmodel_registry \<Rightarrow> class_ptr option \<Rightarrow> service_ptr option" where
  "ni_objectmodel_service_by_class S R cls =
     find (\<lambda>service. compatible (S service) = cls) (service_registry R)"

fun get_class_scan :: "class_store \<Rightarrow> class_ptr list \<Rightarrow> string \<Rightarrow> ni_fatal + class_ptr option" where
  "get_class_scan C [] name = Inr None"
| "get_class_scan C (cls # rest) name =
     (case class_name (C cls) of
        None \<Rightarrow> Inl Null_pointer_read
      | Some n \<Rightarrow> if n = name then Inr (Some cls) else get_class_scan C rest name)"

definition ni_objectmodel_get_class ::
  "class_store \<Rightarrow> ni_objectmodel_registry \<Rightarrow> string \<Rightarrow> ni_fatal + class_ptr option" where
  "ni_objectmodel_get_class C R name = get_class_scan C (class_registry R) name"

subsection \<open>Extension calls\<close>

text \<open>
  A method call names its interface and its member; a reply is the method return for a
  call, or an error for a call with the error's name and message.
\<close>

record dbus_call =
  call_interface :: string
  call_member :: string

datatype dbus_reply = Method_return dbus_call | Error_reply dbus_call string string

definition DBUS_ERROR_FAILED :: string where
  "DBUS_ERROR_FAILED = ''org.freedesktop.DBus.Error.Failed''"

definition DBUS_ERROR_SERVICE_UNKNOWN :: string where
  "DBUS_ERROR_SERVICE_UNKNOWN = ''org.freedesktop.DBus.Error.ServiceUnknown''"

text \<open>
  Modelled from the spec: the process facility (process.c) is not part of the sources. A
  process instance holds the command it was made for, the environment overrides set with
  \<^verbatim>\<open>ni_process_instance_setenv\<close> and, once the subprocess has ended, its exit status;
  \<^verbatim>\<open>ni_process_exit_status_okay\<close> holds for the exit status zero.
\<close>

record ni_process_instance =
  process_command :: string
  process_environ :: "(string \<times> string) list"
  exit_status :: int

definition ni_process_instance_new :: "string \<Rightarrow> ni_process_instance" where
  "ni_process_instance_new command = \<lparr>process_command = command, process_environ = [], exit_status = 0\<rparr>"

definition ni_process_instance_setenv ::
  "ni_process_instance \<Rightarrow> string \<Rightarrow> string \<Rightarrow> ni_process_instance" where
  "ni_process_instance_setenv process name v =
     process\<lparr>process_environ := AList.update name v (process_environ process)\<rparr>"

definition ni_process_exit_status_okay :: "ni_process_instance \<Rightarrow> bool" where
  "ni_process_exit_status_okay process = (exit_status process = 0)"

text \<open>
  What the dispatcher acts on: the files that exist (by path), the replies handed to the
  connection (\<^verbatim>\<open>ni_dbus_connection_send_error\<close>, \<^verbatim>\<open>ni_dbus_connection_send_message\<close>), the
  subprocesses launched, and the log.
\<close>

record ni_world =
  files :: "string set"
  sent :: "dbus_reply list"
  launched :: "ni_process_instance list"
  messages :: "ni_log list"

text \<open>
  What the collaborators answer during one call, as parameters: the extension found for an
  interface name and the command found in it for a method name (\<open>None\<close> for NULL), whether
  \<^verbatim>\<open>dbus_message_marshal\<close> succeeds and the length of the marshalled message, the path of the file that each of the two calls of
  \<^verbatim>\<open>ni_mkstemp\<close> creates (\<open>None\<close> when it fails), whether \<^verbatim>\<open>ni_file_write\<close> succeeds, the return
  value of \<^verbatim>\<open>ni_dbus_async_server_call_run_command\<close>, and the return value of
  \<^verbatim>\<open>ni_dbus_connection_send_message\<close> in the completion handler.
\<close>

record ni_call_externals =
  ni_config_find_extension :: "string \<Rightarrow> ni_extension option"
  ni_extension_script_find :: "ni_extension \<Rightarrow> string \<Rightarrow> string option"
  dbus_message_marshal :: bool
  msg_len :: nat
  mkstemp_argfile :: "string option"
  ni_file_write :: bool
  mkstemp_retfile :: "string option"
  run_command :: int
  send_message :: int

text \<open>A number as \<^verbatim>\<open>%d\<close> prints it.\<close>

fun decimal :: "nat \<Rightarrow> string" where
  "decimal n =
     (if n < 10 then [char_of (48 + n)]
      else decimal (n div 10) @ [char_of (48 + n mod 10)])"

definition unlink :: "string \<Rightarrow> ni_world \<Rightarrow> ni_world" where
  "unlink path w = w\<lparr>files := files w - {path}\<rparr>"

definition ni_error :: "string \<Rightarrow> ni_world \<Rightarrow> ni_world" where
  "ni_error msg w = w\<lparr>messages := messages w @ [Ni_error msg]\<rparr>"

definition ni_dbus_connection_send_error :: "dbus_call \<Rightarrow> string \<Rightarrow> string \<Rightarrow> ni_world \<Rightarrow> ni_world" where
  "ni_dbus_connection_send_error call error_name msg w =
     w\<lparr>sent := sent w @ [Error_reply call error_name msg]\<rparr>"

text \<open>
  \<^verbatim>\<open>__ni_objectmodel_write_message\<close>: the result is the name of the file written, or
  \<open>None\<close> for NULL.
\<close>

definition ni_objectmodel_write_message :: "ni_call_externals \<Rightarrow> ni_world \<Rightarrow> string option \<times> ni_world" where
  "ni_objectmodel_write_message E w =
     (if \<not> dbus_message_marshal E then
        (None, ni_error ''__ni_objectmodel_write_message: unable to marshal script arguments'' w)
      else
        (case mkstemp_argfile E of
           None \<Rightarrow>
             (None,
              ni_error ''__ni_objectmodel_write_message: unable to create tempfile for script arguments'' w)
         | Some tempname \<Rightarrow>
             (let w1 = w\<lparr>files := insert tempname (files w)\<rparr> in
              if \<not> ni_file_write E then
                (None,
                 unlink tempname
                   (ni_error (''__ni_objectmodel_write_message: unable to store message (len=''
                                @ decimal (msg_len E) @ '')'') w1))
              else (Some tempname, w1))))"

definition ni_objectmodel_empty_tempfile :: "ni_call_externals \<Rightarrow> ni_world \<Rightarrow> string option \<times> ni_world" where
  "ni_objectmodel_empty_tempfile E w =
     (case mkstemp_retfile E of
        None \<Rightarrow>
          (None,
           ni_error ''__ni_objectmodel_empty_tempfile: unable to create tempfile for script arguments'' w)
      | Some tempname \<Rightarrow> (Some tempname, w\<lparr>files := insert tempname (files w)\<rparr>))"

text \<open>
  The label \<^verbatim>\<open>general_failure\<close> of \<^verbatim>\<open>ni_objectmodel_extension_call\<close>, with the value that
  the variable \<open>tempname\<close> has when the label is reached. Freeing the process instance
  launches nothing and sends nothing.
\<close>

definition general_failure :: "string \<Rightarrow> dbus_call \<Rightarrow> string option \<Rightarrow> ni_world \<Rightarrow> bool \<times> ni_world" where
  "general_failure method_name call tempname w =
     (let w1 = ni_dbus_connection_send_error call DBUS_ERROR_FAILED
                 (method_name @ '' - general failure when executing method'') w
      in (False, (case tempname of Some path \<Rightarrow> unlink path w1 | None \<Rightarrow> w1)))"

text \<open>
  \<^verbatim>\<open>ni_objectmodel_extension_call\<close>. After each \<^verbatim>\<open>ni_process_instance_setenv\<close> the variable
  \<open>tempname\<close> is freed with \<^verbatim>\<open>ni_string_free\<close>, which sets it to NULL.
\<close>

definition ni_objectmodel_extension_call ::
  "ni_call_externals \<Rightarrow> string \<Rightarrow> dbus_call \<Rightarrow> ni_world \<Rightarrow> bool \<times> ni_world" where
  "ni_objectmodel_extension_call E method_name call w =
     (case ni_config_find_extension E (call_interface call) of
        None \<Rightarrow>
          (False,
           ni_dbus_connection_send_error call DBUS_ERROR_SERVICE_UNKNOWN
             (''ni_objectmodel_extension_call: no/unknown interface '' @ call_interface call) w)
      | Some extension \<Rightarrow>
          (case ni_extension_script_find E extension method_name of
             None \<Rightarrow>
               (False,
                ni_dbus_connection_send_error call DBUS_ERROR_FAILED
                  (''ni_objectmodel_extension_call: no/unknown extension method '' @ method_name) w)
           | Some command \<Rightarrow>
               (let process = ni_process_instance_new command in
                (case ni_objectmodel_write_message E w of
                   (None, w1) \<Rightarrow> general_failure method_name call None w1
                 | (Some argfile, w1) \<Rightarrow>
                     (let process1 = ni_process_instance_setenv process ''WICKED_ARGFILE'' argfile in
                      (case ni_objectmodel_empty_tempfile E w1 of
                         (None, w2) \<Rightarrow> general_failure method_name call None w2
                       | (Some retfile, w2) \<Rightarrow>
                           (let process2 = ni_process_instance_setenv process1 ''WICKED_RETFILE'' retfile in
                            if run_command E < 0 then
                              (False,
                               ni_dbus_connection_send_error call DBUS_ERROR_FAILED
                                 (''ni_objectmodel_extension_call: error executing method '' @ method_name)
                                 (ni_error
                                    (''ni_objectmodel_extension_call: error executing method ''
                                       @ method_name) w2))
                            else (True, w2\<lparr>launched := launched w2 @ [process2]\<rparr>))))))))"

text \<open>
  \<^verbatim>\<open>ni_objectmodel_extension_completion\<close>, for the call and the process instance of the
  subprocess that has ended.
\<close>

definition ni_objectmodel_extension_completion ::
  "ni_call_externals \<Rightarrow> dbus_call \<Rightarrow> ni_process_instance \<Rightarrow> ni_world \<Rightarrow> bool \<times> ni_world" where
  "ni_objectmodel_extension_completion E call process w =
     (let reply = (if ni_process_exit_status_okay process then Method_return call
                   else Error_reply call DBUS_ERROR_FAILED ''dbus extension script returns error'');
          w1 = w\<lparr>sent := sent w @ [reply]\<rparr>
      in (True, if send_message E < 0 then ni_error ''unable to send reply (out of memory)'' w1 else w1))"

section \<open>Example data\<close>

text \<open>
  Two classes, Base (address 1) and Child (address 2) with superclass Base, a third class
  without superclass; a service S1 compatible with Base, a service S2 compatible with the
  third class and a root service compatible with no class; an object of class Child.
\<close>

definition example_classes :: class_store where
  "example_classes p =
     (if p = 1 then \<lparr>class_name = Some ''Base'', superclass = None\<rparr>
      else if p = 2 then \<lparr>class_name = Some ''Child'', superclass = Some 1\<rparr>
      else \<lparr>class_name = Some ''Other'', superclass = None\<rparr>)"

definition example_services :: service_store where
  "example_services p =
     (if p = 1 then \<lparr>service_name = Some ''S1'', compatible = Some 1\<rparr>
      else if p = 2 then \<lparr>service_name = Some ''S2'', compatible = Some 3\<rparr>
      else \<lparr>service_name = Some ''Root'', compatible = None\<rparr>)"

definition example_object :: ni_dbus_object where
  "example_object = \<lparr>object_path = ''/com/suse/Wicked/Interface'', object_class = Some 2, interfaces = []\<rparr>"

definition example_call :: dbus_call where
  "example_call = \<lparr>call_interface = ''com.suse.Wicked.Foo'', call_member = ''bar''\<rparr>"

definition example_call_externals :: ni_call_externals where
  "example_call_externals =
     \<lparr>ni_config_find_extension =
        (\<lambda>interface. if interface = ''com.suse.Wicked.Foo''
                      then Some ((ni_extension_new ''com.suse.Wicked.Foo'' 0)
                                   \<lparr>actions := [\<lparr>action_name = ''bar'',
                                                 action_command = Some (Xpath_format ''/bin/bar'')\<rparr>]\<rparr>)
                      else None),
      ni_extension_script_find = (\<lambda>extension name. if name = ''bar'' then Some ''/bin/bar'' else None),
      dbus_message_marshal = True,
      msg_len = 96,
      mkstemp_argfile = Some ''/tmp/wicked.arg'',
      ni_file_write = True,
      mkstemp_retfile = Some ''/tmp/wicked.ret'',
      run_command = 0,
      send_message = 0\<rparr>"

definition example_world :: ni_world where
  "example_world = \<lparr>files = {}, sent = [], launched = [], messages = []\<rparr>"

definition example_process :: ni_process_instance where
  "example_process =
     \<lparr>process_command = ''/bin/bar'',
      process_environ = [(''WICKED_ARGFILE'', ''/tmp/wicked.arg''), (''WICKED_RETFILE'', ''/tmp/wicked.ret'')],
      exit_status = 0\<rparr>"

text \<open>
  Collaborators for the examples: a \<open>strtol\<close> that reads an optional minus sign and decimal
  digits and stops at the ends of the range of a 64-bit \<^verbatim>\<open>long\<close>, an address parser that knows one address, two update targets with the codes 1
  and 4, two address-configuration types, an expression parser that refuses the empty
  text, and a preference table of two entries.
\<close>

fun decimal_digits :: "nat \<Rightarrow> string \<Rightarrow> nat" where
  "decimal_digits acc [] = acc"
| "decimal_digits acc (c # cs) =
     (if c \<in> set ''0123456789'' then decimal_digits (10 * acc + (of_char c - 48)) cs else acc)"

definition example_strtol :: "string \<Rightarrow> int" where
  "example_strtol s =
     max (- 9223372036854775808)
       (min 9223372036854775807
          (case s of
             [] \<Rightarrow> 0
           | c # cs \<Rightarrow> if c = CHR ''-'' then - int (decimal_digits 0 cs) else int (decimal_digits 0 s)))"

definition example_externals :: ni_externals where
  "example_externals =
     \<lparr>strtol = example_strtol,
      strtoul = decimal_digits 0,
      ni_parse_int = (\<lambda>s old. decimal_digits 0 s),
      ni_address_parse = (\<lambda>s. if s = ''10.0.0.1'' then Some [10, 0, 0, 1] else None),
      ni_addrconf_name_to_update_target =
        (\<lambda>s. if s = ''hostname'' then 1 else if s = ''resolver'' then 4 else - 1),
      ni_addrconf_name_to_type = (\<lambda>s. if s = ''dhcp'' then 0 else if s = ''static'' then 1 else - 1),
      ni_linktype_name_to_type = (\<lambda>s. if s = ''ethernet'' then 1 else - 1),
      xpath_format_parse = (\<lambda>s. if s = [] then None else Some (Xpath_format s)),
      ni_system_update_capabilities = NOT 0,
      ni_wicked_rest_lookup = (\<lambda>s. if s = ''/system/hostname'' then Some 7 else None),
      NI_DHCP_SERVER_PREFERENCES_MAX = 2,
      NI_AF_MASK_IPV4 = 1,
      NI_AF_MASK_IPV6 = 2\<rparr>"

definition example_dhcp :: ni_config_dhcp where
  "example_dhcp = dhcp (ni_config_new example_externals)"

definition prefer_server_node :: "string \<Rightarrow> xml_node" where
  "prefer_server_node w = Xml_node ''prefer-server'' [(''ip'', ''10.0.0.1''), (''weight'', w)] None []"


section \<open>Load errors of the configuration\<close>

text \<open>
  The load errors of claim C7, in the claim's words, as conditions on the document: a
  child of an extension that lacks a required attribute (an action without name, an
  environment element without putenv) or carries an expression that does not parse; an
  extension element that lacks its name, or its type where the category maps types, or
  that has a recognized type and a pidfile path that does not parse or such a child; a
  category (the first child of that name of the \<^verbatim>\<open><config>\<close> node) with such an extension.
\<close>

definition child_load_error :: "ni_externals \<Rightarrow> xml_node \<Rightarrow> bool" where
  "child_load_error X child \<longleftrightarrow>
     (node_name child = ''action'' \<and>
        (case xml_node_get_attr child ''name'' of
           None \<Rightarrow> True
         | Some name \<Rightarrow>
             (case xml_node_get_attr child ''command'' of
                None \<Rightarrow> False
              | Some command \<Rightarrow> xpath_format_parse X command = None)))
     \<or> (node_name child = ''environment'' \<and>
        (case xml_node_get_attr child ''putenv'' of
           None \<Rightarrow> True
         | Some putenv \<Rightarrow> xpath_format_parse X putenv = None))"

definition extension_body_load_error :: "ni_externals \<Rightarrow> xml_node \<Rightarrow> bool" where
  "extension_body_load_error X node \<longleftrightarrow>
     (case (case xml_node_get_child node ''pidfile'' of
              Some child \<Rightarrow> xml_node_get_attr child ''path''
            | None \<Rightarrow> None) of
        None \<Rightarrow> False
      | Some path \<Rightarrow> xpath_format_parse X path = None)
     \<or> (\<exists>child \<in> set (node_children node). child_load_error X child)"

definition extension_load_error :: "ni_externals \<Rightarrow> (string \<Rightarrow> int) option \<Rightarrow> xml_node \<Rightarrow> bool" where
  "extension_load_error X map_type node \<longleftrightarrow>
     node_name node = ''extension'' \<and>
     (case xml_node_get_attr node ''name'' of
        None \<Rightarrow> True
      | Some name \<Rightarrow>
          (case map_type of
             None \<Rightarrow> extension_body_load_error X node
           | Some f \<Rightarrow>
               (case xml_node_get_attr node ''type'' of
                  None \<Rightarrow> True
                | Some attrval \<Rightarrow> \<not> f attrval < 0 \<and> extension_body_load_error X node)))"

definition category_load_error ::
  "ni_externals \<Rightarrow> xml_node \<Rightarrow> string \<Rightarrow> (string \<Rightarrow> int) option \<Rightarrow> bool" where
  "category_load_error X node exclass map_type \<longleftrightarrow>
     (case xml_node_get_child node exclass of
        None \<Rightarrow> False
      | Some n \<Rightarrow> \<exists>e \<in> set (node_children n). extension_load_error X map_type e)"

definition config_load_error :: "ni_externals \<Rightarrow> xml_node \<Rightarrow> bool" where
  "config_load_error X node \<longleftrightarrow>
     category_load_error X node ''addrconf'' (Some (ni_addrconf_name_to_type X))
     \<or> category_load_error X node ''linktype'' (Some (ni_linktype_name_to_type X))
     \<or> category_load_error X node ''api'' None"

section \<open>Example documents\<close>

text \<open>
  A document for the examples: a \<^verbatim>\<open><config>\<close> node with the category \<^verbatim>\<open><api>\<close>, a complete
  extension, and a second extension with the given attributes and children.
\<close>

definition example_config_node :: "(string \<times> string) list \<Rightarrow> xml_node list \<Rightarrow> xml_node" where
  "example_config_node extension_attrs extension_children =
     Xml_node ''config'' [] None
       [Xml_node ''api'' [] None
          [Xml_node ''extension'' [(''name'', ''system.hostname'')] None
             [Xml_node ''action'' [(''name'', ''update''), (''command'', ''/bin/update'')] None []],
           Xml_node ''extension'' extension_attrs None extension_children]]"

definition example_document :: "xml_node \<Rightarrow> xml_document" where
  "example_document node = Xml_document (Xml_node [] [] None [node])"

section \<open>Properties: binding compatible interfaces\<close>

lemma compatible_class_walk_None: "compatible_class_walk C want None = Some False"
  by (subst compatible_class_walk.simps) simp

lemma compatible_class_walk_Some:
  "compatible_class_walk C want (Some c) =
     (if want = Some c then Some True else compatible_class_walk C want (superclass (C c)))"
  by (subst compatible_class_walk.simps) simp

lemma superclass_chain_None: "superclass_chain C None = Some []"
  by (subst superclass_chain.simps) simp

lemma superclass_chain_Some:
  "superclass_chain C (Some c) =
     Option.bind (superclass_chain C (superclass (C c))) (\<lambda>cs. Some (c # cs))"
  by (subst superclass_chain.simps) simp

lemma compatible_class_walk_chain:
  "superclass_chain C cls = Some cs \<Longrightarrow>
   compatible_class_walk C want cls = Some (want \<in> Some ` set cs)"
proof (induction cs arbitrary: cls)
  case Nil
  then show ?case
    by (cases cls)
      (auto simp: superclass_chain_None superclass_chain_Some compatible_class_walk_None
        split: Option.bind_splits)
next
  case (Cons a cs)
  from Cons.prems obtain c where c: "cls = Some c" "a = c"
    "superclass_chain C (superclass (C c)) = Some cs"
    by (cases cls) (auto simp: superclass_chain_None superclass_chain_Some split: Option.bind_splits)
  from Cons.IH [OF c(3)] c(1,2) show ?case
    by (auto simp: compatible_class_walk_Some)
qed

lemma register_service_class [simp]:
  "object_class (ni_dbus_object_register_service object s) = object_class object"
  "object_path (ni_dbus_object_register_service object s) = object_path object"
  by (simp_all add: ni_dbus_object_register_service_def)

lemma register_service_interfaces_set:
  "set (interfaces (ni_dbus_object_register_service object s)) = insert s (set (interfaces object))"
  by (auto simp: ni_dbus_object_register_service_def)

lemma register_service_count:
  "count_list (interfaces (ni_dbus_object_register_service object s)) t =
     (if t = s then max 1 (count_list (interfaces object) s) else count_list (interfaces object) t)"
  by (auto simp: ni_dbus_object_register_service_def count_list_0_iff max_def Suc_le_eq)

lemma foldl_register_class [simp]:
  "object_class (foldl ni_dbus_object_register_service object xs) = object_class object"
  "object_path (foldl ni_dbus_object_register_service object xs) = object_path object"
  by (induction xs arbitrary: object) simp_all

lemma foldl_register_set:
  "set (interfaces (foldl ni_dbus_object_register_service object xs)) =
     set (interfaces object) \<union> set xs"
  by (induction xs arbitrary: object) (auto simp: register_service_interfaces_set)

lemma foldl_register_count:
  "count_list (interfaces (foldl ni_dbus_object_register_service object xs)) t =
     (if t \<in> set xs then max 1 (count_list (interfaces object) t)
      else count_list (interfaces object) t)"
  by (induction xs arbitrary: object) (auto simp: register_service_count)

lemma bind_services_foldl:
  "superclass_chain C (object_class object) = Some cs \<Longrightarrow>
   bind_services C S regs object =
     Some (foldl ni_dbus_object_register_service object
             (filter (\<lambda>s. compatible (S s) \<in> Some ` set cs) regs))"
  by (induction regs arbitrary: object) (simp_all add: compatible_class_walk_chain)

text \<open>
  Claim C1. For an object whose class is set and whose superclass chain ends, one pass of
  \<^verbatim>\<open>ni_objectmodel_bind_compatible_interfaces\<close> returns TRUE, logs nothing, and calls
  \<^verbatim>\<open>ni_dbus_object_register_service\<close> once for each entry of the service registry whose
  compatible class is the object's class or one of its ancestors, in registry order, and
  for no other service. The services attached afterwards are those attached before
  and exactly these; each of them is attached once (as often as before, when it was
  attached before), and no other service changes.
\<close>

theorem bind_compatible_interfaces_attaches:
  assumes cls: "object_class object = Some c"
    and chain: "superclass_chain C (Some c) = Some cs"
  shows "\<exists>object'.
      ni_objectmodel_bind_compatible_interfaces C S R object lg = Some (True, object', lg)
    \<and> object' = foldl ni_dbus_object_register_service object
                  (filter (\<lambda>s. compatible (S s) \<in> Some ` set cs) (service_registry R))
    \<and> object_path object' = object_path object \<and> object_class object' = object_class object
    \<and> set (interfaces object') =
        set (interfaces object) \<union> {s \<in> set (service_registry R). compatible (S s) \<in> Some ` set cs}
    \<and> (\<forall>s. count_list (interfaces object') s =
          (if s \<in> set (service_registry R) \<and> compatible (S s) \<in> Some ` set cs
           then max 1 (count_list (interfaces object) s)
           else count_list (interfaces object) s))"
proof -
  let ?att = "filter (\<lambda>s. compatible (S s) \<in> Some ` set cs) (service_registry R)"
  let ?object' = "foldl ni_dbus_object_register_service object ?att"
  from chain cls have "superclass_chain C (object_class object) = Some cs"
    by simp
  then have "bind_services C S (service_registry R) object = Some ?object'"
    by (rule bind_services_foldl)
  with cls have "ni_objectmodel_bind_compatible_interfaces C S R object lg = Some (True, ?object', lg)"
    by (simp add: ni_objectmodel_bind_compatible_interfaces_def)
  moreover have "set (interfaces ?object') =
      set (interfaces object) \<union> {s \<in> set (service_registry R). compatible (S s) \<in> Some ` set cs}"
    by (simp add: foldl_register_set)
  moreover have "\<forall>s. count_list (interfaces ?object') s =
          (if s \<in> set (service_registry R) \<and> compatible (S s) \<in> Some ` set cs
           then max 1 (count_list (interfaces object) s)
           else count_list (interfaces object) s)"
    by (simp add: foldl_register_count)
  ultimately show ?thesis
    by simp
qed

lemma example_chain: "superclass_chain example_classes (Some 2) = Some [2, 1]"
  by (simp add: superclass_chain_Some superclass_chain_None example_classes_def)

theorem bind_compatible_interfaces_attaches_witness:
  "object_class example_object = Some 2
   \<and> superclass_chain example_classes (Some 2) = Some [2, 1]
   \<and> ni_objectmodel_bind_compatible_interfaces example_classes example_services
        \<lparr>class_registry = [1, 2], service_registry = [1, 2, 3]\<rparr> example_object []
      = Some (True, example_object\<lparr>interfaces := [1]\<rparr>, [])
   \<and> count_list (interfaces (example_object\<lparr>interfaces := [1]\<rparr>)) 1 = 1"
proof -
  have c: "object_class example_object = Some 2"
    by (simp add: example_object_def)
  from bind_compatible_interfaces_attaches [OF c example_chain,
      of example_services "\<lparr>class_registry = [1, 2], service_registry = [1, 2, 3]\<rparr>" "[]"]
  show ?thesis
    using c example_chain
    by (simp add: example_services_def ni_dbus_object_register_service_def example_object_def)
qed

text \<open>
  Claim C8. Binding an object whose class is not set returns FALSE: the function returns
  (it does not end the process), the object is left as it was, with no service attached to
  it, and one error is logged that names the object.
\<close>

theorem bind_without_class_fails:
  assumes "object_class object = None"
  shows "ni_objectmodel_bind_compatible_interfaces C S R object lg =
      Some (False, object,
        lg @ [Ni_error (''ni_objectmodel_bind_compatible_interfaces: object '' @ [CHR 0x22]
                @ object_path object @ [CHR 0x22] @ '' without class'')])"
  using assms by (simp add: ni_objectmodel_bind_compatible_interfaces_def)

theorem bind_without_class_fails_witness:
  "ni_objectmodel_bind_compatible_interfaces example_classes example_services
     \<lparr>class_registry = [1, 2], service_registry = [1, 2, 3]\<rparr>
     \<lparr>object_path = ''/x'', object_class = None, interfaces = []\<rparr> []
   = Some (False, \<lparr>object_path = ''/x'', object_class = None, interfaces = []\<rparr>,
       [Ni_error (''ni_objectmodel_bind_compatible_interfaces: object '' @ [CHR 0x22]
                @ ''/x'' @ [CHR 0x22] @ '' without class'')])"
  using bind_without_class_fails [of "\<lparr>object_path = ''/x'', object_class = None, interfaces = []\<rparr>"
      example_classes example_services "\<lparr>class_registry = [1, 2], service_registry = [1, 2, 3]\<rparr>" "[]"]
  by simp

section \<open>Properties: the registries\<close>

lemma get_class_scan_append:
  "get_class_scan C (xs @ [cls]) name =
     (case get_class_scan C xs name of
        Inr None \<Rightarrow> get_class_scan C [cls] name
      | r \<Rightarrow> r)"
  by (induction xs) (auto split: option.splits sum.splits)

lemma service_by_name_scan_append:
  "service_by_name_scan S (xs @ [service]) name =
     (case service_by_name_scan S xs name of
        Inr None \<Rightarrow> service_by_name_scan S [service] name
      | r \<Rightarrow> r)"
  by (induction xs) (auto split: option.splits sum.splits)

text \<open>
  Claim C3, as amended. \<^verbatim>\<open>ni_objectmodel_register_class\<close> fails exactly when the name pointer
  of the class is NULL or the class table holds \<open>NI_DBUS_CLASSES_MAX\<close> entries already;
  \<^verbatim>\<open>ni_objectmodel_register_service\<close> fails when the service table holds
  \<open>NI_DBUS_SERVICES_MAX\<close> entries already and accepts a named service when it does not.
  Neither function compares names: a registration that succeeds puts the descriptor at the
  end of its table, whatever the table holds, and every lookup by name that found an entry
  before finds the same entry afterwards.
\<close>

theorem register_appends_unchecked:
  "(isl (ni_objectmodel_register_class C cls R) \<longleftrightarrow>
      class_name (C cls) = None \<or> NI_DBUS_CLASSES_MAX \<le> length (class_registry R))
   \<and> (\<forall>R'. ni_objectmodel_register_class C cls R = Inr R' \<longrightarrow>
        class_registry R' = class_registry R @ [cls]
      \<and> service_registry R' = service_registry R
      \<and> (\<forall>name old. ni_objectmodel_get_class C R name = Inr (Some old) \<longrightarrow>
            ni_objectmodel_get_class C R' name = Inr (Some old)))
   \<and> (NI_DBUS_SERVICES_MAX \<le> length (service_registry R) \<longrightarrow>
        isl (ni_objectmodel_register_service service R))
   \<and> (service_name (S service) \<noteq> None \<and> length (service_registry R) < NI_DBUS_SERVICES_MAX \<longrightarrow>
        \<not> isl (ni_objectmodel_register_service service R))
   \<and> (\<forall>R'. ni_objectmodel_register_service service R = Inr R' \<longrightarrow>
        service_registry R' = service_registry R @ [service]
      \<and> class_registry R' = class_registry R
      \<and> (\<forall>name old. ni_objectmodel_service_by_name S R name = Inr (Some old) \<longrightarrow>
            ni_objectmodel_service_by_name S R' name = Inr (Some old)))"
proof -
  have c1: "isl (ni_objectmodel_register_class C cls R) \<longleftrightarrow>
      class_name (C cls) = None \<or> NI_DBUS_CLASSES_MAX \<le> length (class_registry R)"
    by (auto simp: ni_objectmodel_register_class_def Let_def)
  have c2: "\<forall>R'. ni_objectmodel_register_class C cls R = Inr R' \<longrightarrow>
        class_registry R' = class_registry R @ [cls]
      \<and> service_registry R' = service_registry R
      \<and> (\<forall>name old. ni_objectmodel_get_class C R name = Inr (Some old) \<longrightarrow>
            ni_objectmodel_get_class C R' name = Inr (Some old))"
    by (auto simp: ni_objectmodel_register_class_def Let_def ni_objectmodel_get_class_def
        get_class_scan_append split: if_splits)
  have s1: "NI_DBUS_SERVICES_MAX \<le> length (service_registry R) \<longrightarrow>
        isl (ni_objectmodel_register_service service R)"
    by (auto simp: ni_objectmodel_register_service_def Let_def)
  have s2: "service_name (S service) \<noteq> None \<and> length (service_registry R) < NI_DBUS_SERVICES_MAX \<longrightarrow>
        \<not> isl (ni_objectmodel_register_service service R)"
    by (auto simp: ni_objectmodel_register_service_def Let_def)
  have s3: "\<forall>R'. ni_objectmodel_register_service service R = Inr R' \<longrightarrow>
        service_registry R' = service_registry R @ [service]
      \<and> class_registry R' = class_registry R
      \<and> (\<forall>name old. ni_objectmodel_service_by_name S R name = Inr (Some old) \<longrightarrow>
            ni_objectmodel_service_by_name S R' name = Inr (Some old))"
    by (auto simp: ni_objectmodel_register_service_def Let_def ni_objectmodel_service_by_name_def
        service_by_name_scan_append split: if_splits)
  from c1 c2 s1 s2 s3 show ?thesis
    by blast
qed

text \<open>
  Claim C3 as stated fails: registering the class Base a second time, or the service S1 a
  second time, is accepted and adds a second entry.
\<close>

theorem register_class_twice_counterexample:
  "ni_objectmodel_register_class example_classes 1 \<lparr>class_registry = [], service_registry = []\<rparr>
     = Inr \<lparr>class_registry = [1], service_registry = []\<rparr>
   \<and> ni_objectmodel_register_class example_classes 1 \<lparr>class_registry = [1], service_registry = []\<rparr>
     = Inr \<lparr>class_registry = [1, 1], service_registry = []\<rparr>
   \<and> ni_objectmodel_register_service 1 \<lparr>class_registry = [1], service_registry = [1]\<rparr>
     = Inr \<lparr>class_registry = [1], service_registry = [1, 1]\<rparr>"
  by (simp add: ni_objectmodel_register_class_def ni_objectmodel_register_service_def
      example_classes_def NI_DBUS_CLASSES_MAX_def NI_DBUS_SERVICES_MAX_def)

theorem register_appends_unchecked_witness:
  "\<not> isl (ni_objectmodel_register_class example_classes 1 \<lparr>class_registry = [1], service_registry = []\<rparr>)
   \<and> ni_objectmodel_register_class example_classes 1 \<lparr>class_registry = [1], service_registry = []\<rparr>
       = Inr \<lparr>class_registry = [1, 1], service_registry = []\<rparr>
   \<and> ni_objectmodel_get_class example_classes \<lparr>class_registry = [1], service_registry = []\<rparr> ''Base''
       = Inr (Some 1)
   \<and> ni_objectmodel_get_class example_classes \<lparr>class_registry = [1, 1], service_registry = []\<rparr> ''Base''
       = Inr (Some 1)
   \<and> service_name (example_services 1) \<noteq> None
   \<and> length (service_registry \<lparr>class_registry = [1], service_registry = []\<rparr>) < NI_DBUS_SERVICES_MAX
   \<and> \<not> isl (ni_objectmodel_register_service 1 \<lparr>class_registry = [1], service_registry = []\<rparr>)"
  using register_appends_unchecked [where C = example_classes and cls = 1
      and R = "\<lparr>class_registry = [1], service_registry = []\<rparr>" and S = example_services
      and service = 1]
  by (simp add: ni_objectmodel_register_class_def ni_objectmodel_get_class_def
      example_classes_def example_services_def NI_DBUS_CLASSES_MAX_def NI_DBUS_SERVICES_MAX_def)

section \<open>Properties: extension calls\<close>

text \<open>
  When the second temporary file cannot be created the call ends at \<^verbatim>\<open>general_failure\<close>:
  one error reply, no subprocess, and the argument file still in place, since \<open>tempname\<close>
  is NULL at the label and \<^verbatim>\<open>unlink\<close> is not reached.
\<close>

lemma extension_call_retfile_failure:
  assumes "ni_config_find_extension E (call_interface call) = Some extension"
    and "ni_extension_script_find E extension method_name = Some command"
    and "dbus_message_marshal E" and "mkstemp_argfile E = Some argfile" and "ni_file_write E"
    and "mkstemp_retfile E = None"
  shows "ni_objectmodel_extension_call E method_name call w =
     (False,
      w\<lparr>files := insert argfile (files w),
        sent := sent w @ [Error_reply call DBUS_ERROR_FAILED
                           (method_name @ '' - general failure when executing method'')],
        messages := messages w @
          [Ni_error ''__ni_objectmodel_empty_tempfile: unable to create tempfile for script arguments'']\<rparr>)"
  using assms
  by (simp add: ni_objectmodel_extension_call_def ni_objectmodel_write_message_def
      ni_objectmodel_empty_tempfile_def general_failure_def ni_error_def
      ni_dbus_connection_send_error_def Let_def)

text \<open>
  Claim C4. The claim has the argument file deleted when the return file cannot be created.
  The code run on that input: the first \<^verbatim>\<open>ni_mkstemp\<close> creates \<^verbatim>\<open>/tmp/wicked.arg\<close>, the second one
  fails. The call returns FALSE with the general-failure reply and launches nothing, and
  \<^verbatim>\<open>/tmp/wicked.arg\<close> exists afterwards.
\<close>

theorem extension_call_retfile_failure_leaves_argfile:
  "ni_objectmodel_extension_call (example_call_externals\<lparr>mkstemp_retfile := None\<rparr>) ''bar''
     example_call example_world =
     (False,
      \<lparr>files = {''/tmp/wicked.arg''},
       sent = [Error_reply example_call DBUS_ERROR_FAILED
                 ''bar - general failure when executing method''],
       launched = [],
       messages =
         [Ni_error ''__ni_objectmodel_empty_tempfile: unable to create tempfile for script arguments'']\<rparr>)"
  by (simp add: ni_objectmodel_extension_call_def ni_objectmodel_write_message_def
      ni_objectmodel_empty_tempfile_def general_failure_def ni_error_def
      ni_dbus_connection_send_error_def Let_def example_call_externals_def example_call_def
      example_world_def ni_process_instance_new_def)

text \<open>
  Claim C2, as amended. The completion handler returns TRUE and hands exactly one reply to
  the connection: the method return of the call when the exit status is zero, and
  otherwise the error reply with the message "dbus extension script returns error". It
  launches nothing and removes no file; it logs an error when the connection refuses the
  reply, and nothing otherwise.
\<close>

theorem extension_completion_one_reply:
  "\<exists>w'. ni_objectmodel_extension_completion E call process w = (True, w')
     \<and> sent w' = sent w @
          [if exit_status process = 0 then Method_return call
           else Error_reply call DBUS_ERROR_FAILED ''dbus extension script returns error'']
     \<and> files w' = files w
     \<and> launched w' = launched w
     \<and> messages w' =
          (if send_message E < 0 then messages w @ [Ni_error ''unable to send reply (out of memory)'']
           else messages w)"
  by (simp add: ni_objectmodel_extension_completion_def ni_process_exit_status_okay_def
      ni_error_def Let_def)

theorem extension_completion_one_reply_witness:
  "ni_objectmodel_extension_completion example_call_externals example_call example_process example_world
     = (True, example_world\<lparr>sent := [Method_return example_call]\<rparr>)
   \<and> ni_objectmodel_extension_completion example_call_externals example_call
       (example_process\<lparr>exit_status := 1\<rparr>) example_world
     = (True, example_world\<lparr>sent := [Error_reply example_call DBUS_ERROR_FAILED
                                         ''dbus extension script returns error'']\<rparr>)"
proof -
  from extension_completion_one_reply [of example_call_externals example_call example_process example_world]
  have a: "ni_objectmodel_extension_completion example_call_externals example_call example_process
      example_world = (True, example_world\<lparr>sent := [Method_return example_call]\<rparr>)"
    by (auto simp: example_world_def example_process_def example_call_externals_def)
  from extension_completion_one_reply [of example_call_externals example_call
      "example_process\<lparr>exit_status := 1\<rparr>" example_world]
  have b: "ni_objectmodel_extension_completion example_call_externals example_call
       (example_process\<lparr>exit_status := 1\<rparr>) example_world
     = (True, example_world\<lparr>sent := [Error_reply example_call DBUS_ERROR_FAILED
                                         ''dbus extension script returns error'']\<rparr>)"
    by (auto simp: example_world_def example_process_def example_call_externals_def)
  from a b show ?thesis
    by simp
qed

text \<open>
  Claim C2 as stated fails: after a call that was dispatched with both temporary files
  created, the completion handler leaves both files in place, for the exit status 0 and
  for the exit status 1.
\<close>

theorem extension_completion_tempfiles_counterexample:
  "ni_objectmodel_extension_call example_call_externals ''bar'' example_call example_world
     = (True, \<lparr>files = {''/tmp/wicked.arg'', ''/tmp/wicked.ret''}, sent = [],
               launched = [example_process], messages = []\<rparr>)
   \<and> files (snd (ni_objectmodel_extension_completion example_call_externals example_call example_process
        \<lparr>files = {''/tmp/wicked.arg'', ''/tmp/wicked.ret''}, sent = [],
         launched = [example_process], messages = []\<rparr>))
     = {''/tmp/wicked.arg'', ''/tmp/wicked.ret''}
   \<and> files (snd (ni_objectmodel_extension_completion example_call_externals example_call
        (example_process\<lparr>exit_status := 1\<rparr>)
        \<lparr>files = {''/tmp/wicked.arg'', ''/tmp/wicked.ret''}, sent = [],
         launched = [example_process], messages = []\<rparr>))
     = {''/tmp/wicked.arg'', ''/tmp/wicked.ret''}"
  by (simp add: ni_objectmodel_extension_call_def ni_objectmodel_write_message_def
      ni_objectmodel_empty_tempfile_def general_failure_def ni_error_def
      ni_dbus_connection_send_error_def Let_def example_call_externals_def example_call_def
      example_world_def ni_process_instance_new_def ni_process_instance_setenv_def
      example_process_def ni_objectmodel_extension_completion_def insert_commute)

section \<open>Properties: update targets and server preferences\<close>

lemma example_externals_sel:
  "strtol example_externals = example_strtol"
  "strtoul example_externals = decimal_digits 0"
  "ni_parse_int example_externals = (\<lambda>s old. decimal_digits 0 s)"
  "ni_address_parse example_externals = (\<lambda>s. if s = ''10.0.0.1'' then Some [10, 0, 0, 1] else None)"
  "ni_addrconf_name_to_update_target example_externals =
     (\<lambda>s. if s = ''hostname'' then 1 else if s = ''resolver'' then 4 else - 1)"
  "ni_addrconf_name_to_type example_externals =
     (\<lambda>s. if s = ''dhcp'' then 0 else if s = ''static'' then 1 else - 1)"
  "ni_linktype_name_to_type example_externals = (\<lambda>s. if s = ''ethernet'' then 1 else - 1)"
  "xpath_format_parse example_externals = (\<lambda>s. if s = [] then None else Some (Xpath_format s))"
  "ni_system_update_capabilities example_externals = NOT 0"
  "ni_wicked_rest_lookup example_externals = (\<lambda>s. if s = ''/system/hostname'' then Some 7 else None)"
  "NI_DHCP_SERVER_PREFERENCES_MAX example_externals = 2"
  "NI_AF_MASK_IPV4 example_externals = 1"
  "NI_AF_MASK_IPV6 example_externals = 2"
  by (simp_all add: example_externals_def)

lemma example_strtol_values:
  "example_strtol ''150'' = 150"
  "example_strtol ''-42'' = - 42"
  "example_strtol ''4294967297'' = 4294967297"
  "example_strtol ''-2147483649'' = - 2147483649"
  by (simp_all add: example_strtol_def)

lemma long_to_int_in_range:
  "- 2147483648 \<le> v \<Longrightarrow> v < 2147483648 \<Longrightarrow> long_to_int v = v"
  by (simp add: long_to_int_def sint_sbintrunc' signed_take_bit_int_eq_self)

lemma long_to_int_values:
  "long_to_int 150 = 150"
  "long_to_int (- 42) = - 42"
  "long_to_int 4294967297 = 1"
  "long_to_int (- 2147483649) = 2147483647"
  by (simp_all add: long_to_int_def)

subsection \<open>Update targets\<close>

lemma parse_update_targets_children_rc:
  "fst (parse_update_targets_children X children m lg) = 0"
  by (induction children arbitrary: m lg) (simp_all add: Let_def)

lemma parse_update_targets_children_append:
  "parse_update_targets_children X (cs @ ds) m lg =
     (case parse_update_targets_children X cs m lg of
        (rc, m1, lg1) \<Rightarrow> parse_update_targets_children X ds m1 lg1)"
  by (induction cs arbitrary: m lg) (simp_all add: Let_def)

lemma bit_or_single:
  "n < 32 \<Longrightarrow> bit ((m :: 32 word) OR push_bit n 1) i \<longleftrightarrow> bit m i \<or> i = n"
  by (auto simp: bit_simps)

text \<open>
  Claim C6. \<^verbatim>\<open>ni_config_parse_update_targets\<close> returns 0 and the mask and log reached after
  the last child; the children are handled in document order, each from the mask and log
  that the children before it have left. Without children the mask and the log are
  returned as they were. A single child \<^verbatim>\<open><all/>\<close> returns the mask with all bits set, a
  single child \<^verbatim>\<open><none/>\<close> the mask 0, a single child with a target code (not negative, below
  the width of the mask) the mask in which bit \<open>i\<close> is set exactly when it was set before
  or \<open>i\<close> is the code, and a single child of any other name the mask as it was, with one
  warning logged. Nothing else is logged.
\<close>

theorem parse_update_targets_result:
  "ni_config_parse_update_targets X m (Xml_node nm at cd []) lg = (0, m, lg)
   \<and> ni_config_parse_update_targets X m (Xml_node nm at cd (cs @ ds)) lg =
       (case ni_config_parse_update_targets X m (Xml_node nm at cd cs) lg of
          (rc, m1, lg1) \<Rightarrow> ni_config_parse_update_targets X m1 (Xml_node nm at cd ds) lg1)
   \<and> (\<exists>m1 lg1.
         ni_config_parse_update_targets X m (Xml_node nm at cd [child]) lg = (0, m1, lg1)
       \<and> (if node_name child = ''all'' then m1 = NOT 0 \<and> (\<forall>i < 32. bit m1 i) \<and> lg1 = lg
          else if node_name child = ''none'' then m1 = 0 \<and> lg1 = lg
          else if 0 \<le> ni_addrconf_name_to_update_target X (node_name child) then
            (ni_addrconf_name_to_update_target X (node_name child) < 32 \<longrightarrow>
               (\<forall>i. bit m1 i \<longleftrightarrow>
                  bit m i \<or> i = nat (ni_addrconf_name_to_update_target X (node_name child))))
            \<and> lg1 = lg
          else m1 = m
            \<and> lg1 = lg @ [Ni_warn (''ignoring unknown addrconf update target '' @ [CHR 0x22]
                              @ node_name child @ [CHR 0x22])]))"
proof (intro conjI)
  show "ni_config_parse_update_targets X m (Xml_node nm at cd []) lg = (0, m, lg)"
    by (simp add: ni_config_parse_update_targets_def)
  show "ni_config_parse_update_targets X m (Xml_node nm at cd (cs @ ds)) lg =
       (case ni_config_parse_update_targets X m (Xml_node nm at cd cs) lg of
          (rc, m1, lg1) \<Rightarrow> ni_config_parse_update_targets X m1 (Xml_node nm at cd ds) lg1)"
    by (simp add: ni_config_parse_update_targets_def parse_update_targets_children_append)
  let ?t = "ni_addrconf_name_to_update_target X (node_name child)"
  let ?warn = "Ni_warn (''ignoring unknown addrconf update target '' @ [CHR 0x22]
                              @ node_name child @ [CHR 0x22])"
  consider (all) "node_name child = ''all''"
    | (none) "node_name child \<noteq> ''all''" "node_name child = ''none''"
    | (known) "node_name child \<noteq> ''all''" "node_name child \<noteq> ''none''" "0 \<le> ?t"
    | (unknown) "node_name child \<noteq> ''all''" "node_name child \<noteq> ''none''" "?t < 0"
    by linarith
  then show "\<exists>m1 lg1.
         ni_config_parse_update_targets X m (Xml_node nm at cd [child]) lg = (0, m1, lg1)
       \<and> (if node_name child = ''all'' then m1 = NOT 0 \<and> (\<forall>i < 32. bit m1 i) \<and> lg1 = lg
          else if node_name child = ''none'' then m1 = 0 \<and> lg1 = lg
          else if 0 \<le> ?t then
            (?t < 32 \<longrightarrow> (\<forall>i. bit m1 i \<longleftrightarrow> bit m i \<or> i = nat ?t))
            \<and> lg1 = lg
          else m1 = m \<and> lg1 = lg @ [?warn])"
  proof cases
    case all
    have "\<forall>i < 32. bit (NOT 0 :: 32 word) i"
      by (simp add: bit_not_iff)
    with all show ?thesis
      by (intro exI [of _ "NOT 0"] exI [of _ lg]) (simp add: ni_config_parse_update_targets_def)
  next
    case none
    then show ?thesis
      by (intro exI [of _ 0] exI [of _ lg]) (simp add: ni_config_parse_update_targets_def)
  next
    case known
    have "?t < 32 \<longrightarrow> (\<forall>i. bit (m OR push_bit (nat ?t) 1) i \<longleftrightarrow> bit m i \<or> i = nat ?t)"
    proof
      assume "?t < 32"
      with known(3) have "nat ?t < 32"
        by simp
      then show "\<forall>i. bit (m OR push_bit (nat ?t) 1) i \<longleftrightarrow> bit m i \<or> i = nat ?t"
        by (blast intro: bit_or_single [THEN iffD2] dest: bit_or_single [THEN iffD1])
    qed
    with known show ?thesis
      by (intro exI [of _ "m OR push_bit (nat ?t) 1"] exI [of _ lg])
        (simp add: ni_config_parse_update_targets_def Let_def)
  next
    case unknown
    then show ?thesis
      by (intro exI [of _ m] exI [of _ "lg @ [?warn]"])
        (simp add: ni_config_parse_update_targets_def Let_def)
  qed
qed

theorem parse_update_targets_result_witness:
  "ni_addrconf_name_to_update_target example_externals (node_name (Xml_node ''hostname'' [] None [])) < 32
   \<and> ni_config_parse_update_targets example_externals 4 (Xml_node ''allow-update'' [] None []) []
       = (0, 4, [])
   \<and> ni_config_parse_update_targets example_externals 4
       (Xml_node ''allow-update'' [] None [Xml_node ''hostname'' [] None []]) []
       = (0, 6, [])
   \<and> ni_config_parse_update_targets example_externals 5
       (Xml_node ''allow-update'' [] None [Xml_node ''all'' [] None []]) []
       = (0, NOT 0, [])
   \<and> ni_config_parse_update_targets example_externals 5
       (Xml_node ''allow-update'' [] None [Xml_node ''none'' [] None []]) []
       = (0, 0, [])
   \<and> ni_config_parse_update_targets example_externals 5
       (Xml_node ''allow-update'' [] None [Xml_node ''bogus'' [] None []]) []
       = (0, 5, [Ni_warn (''ignoring unknown addrconf update target '' @ [CHR 0x22] @ ''bogus'' @ [CHR 0x22])])
   \<and> ni_config_parse_update_targets example_externals 5
       (Xml_node ''allow-update'' [] None
          [Xml_node ''none'' [] None [], Xml_node ''hostname'' [] None [],
           Xml_node ''resolver'' [] None []]) []
       = (0, 18, [])"
  using parse_update_targets_result [of example_externals 4 "''allow-update''" "[]" None "[]"
      "[]" "[]" "Xml_node ''hostname'' [] None []"]
  by (simp add: ni_config_parse_update_targets_def example_externals_sel)

subsection \<open>Server preferences\<close>

lemma example_dhcp_eq:
  "example_dhcp =
     \<lparr>vendor_class = None, lease_time = 0, ignore_servers = [], num_preferred_servers = 0,
      preferred_server = [\<lparr>pref_address = [], weight = 0\<rparr>, \<lparr>pref_address = [], weight = 0\<rparr>],
      allow_update = NOT 0\<rparr>"
  by (simp add: example_dhcp_def ni_config_new_def example_externals_sel numeral_2_eq_2)


lemma prefer_server_node_facts:
  "node_name (prefer_server_node w) = ''prefer-server''"
  "xml_node_get_attr (prefer_server_node w) ''ip'' = Some ''10.0.0.1''"
  "xml_node_get_attr (prefer_server_node w) ''weight'' = Some w"
  "ni_address_parse example_externals ''10.0.0.1'' = Some [10, 0, 0, 1]"
  "num_preferred_servers example_dhcp < NI_DHCP_SERVER_PREFERENCES_MAX example_externals"
  "length (preferred_server example_dhcp) = NI_DHCP_SERVER_PREFERENCES_MAX example_externals"
  by (simp_all add: prefer_server_node_def xml_node_get_attr_def example_externals_sel example_dhcp_eq)

text \<open>The steps of the loop of \<^verbatim>\<open>ni_config_parse_addrconf_dhcp\<close>, one for each kind of child.\<close>

lemma dhcp_simple_elements_fields [simp]:
  "num_preferred_servers (dhcp_simple_elements X child d) = num_preferred_servers d"
  "preferred_server (dhcp_simple_elements X child d) = preferred_server d"
  by (simp_all add: dhcp_simple_elements_def Let_def split: option.splits)

lemma dhcp_allow_update_fields [simp]:
  "num_preferred_servers (fst (dhcp_allow_update X child d lg)) = num_preferred_servers d"
  "preferred_server (fst (dhcp_allow_update X child d lg)) = preferred_server d"
  by (simp_all add: dhcp_allow_update_def split: prod.splits)





text \<open>One child that is not a server preference: the loop goes on, the table is untouched.\<close>

lemma parse_dhcp_children_other:
  assumes "\<not> (node_name child = ''prefer-server'' \<and> xml_node_get_attr child ''ip'' \<noteq> None)"
  shows "parse_dhcp_children X (child # rest) d lg =
     parse_dhcp_children X rest
       (fst (dhcp_allow_update X child (dhcp_simple_elements X child d) lg))
       (snd (dhcp_allow_update X child (dhcp_simple_elements X child d) lg))"
  using assms by (auto simp: Let_def split: prod.splits)

lemma parse_dhcp_children_full:
  assumes "node_name child = ''prefer-server''" "xml_node_get_attr child ''ip'' \<noteq> None"
    and "NI_DHCP_SERVER_PREFERENCES_MAX X \<le> num_preferred_servers d"
  shows "parse_dhcp_children X (child # rest) d lg =
     parse_dhcp_children X rest (dhcp_simple_elements X child d)
       (lg @ [Ni_warn ''config: too many <prefer-server> elements''])"
  using assms by (auto simp: Let_def)

lemma dhcp_simple_elements_prefer_server:
  "node_name child = ''prefer-server'' \<Longrightarrow> dhcp_simple_elements X child d = d"
  by (simp add: dhcp_simple_elements_def Let_def split: option.splits)

lemma prefer_server_step:
  assumes "node_name child = ''prefer-server''"
    and "xml_node_get_attr child ''ip'' = Some ip"
    and "ni_address_parse X ip = Some address"
    and "num_preferred_servers d < NI_DHCP_SERVER_PREFERENCES_MAX X"
  shows "parse_dhcp_children X (child # rest) d lg =
     parse_dhcp_children X rest
       (d\<lparr>num_preferred_servers := num_preferred_servers d + 1,
          preferred_server := (preferred_server d)
            [num_preferred_servers d :=
               \<lparr>pref_address = address,
                weight = fst (prefer_server_weight X (xml_node_get_attr child ''weight'') lg)\<rparr>]\<rparr>)
       (snd (prefer_server_weight X (xml_node_get_attr child ''weight'') lg))"
  using assms
  by (simp add: Let_def dhcp_allow_update_def dhcp_simple_elements_def split: option.splits prod.splits)


lemma parse_dhcp_children_address_failure:
  assumes "node_name child = ''prefer-server''"
    and "xml_node_get_attr child ''ip'' = Some ip"
    and "ni_address_parse X ip = None"
    and "num_preferred_servers d < NI_DHCP_SERVER_PREFERENCES_MAX X"
  shows "parse_dhcp_children X (child # rest) d lg =
     (- 1, d\<lparr>num_preferred_servers := num_preferred_servers d + 1\<rparr>,
      lg @ [Ni_error (''config: unable to parse <prefer-server ip='' @ [CHR 0x22]
              @ ip @ [CHR 0x22])])"
  using assms by (simp add: Let_def dhcp_simple_elements_prefer_server)

text \<open>
  Every child either ends the parse with a negative return code or hands a configuration
  and a log to the rest of the loop; which of the two does not depend on the children
  that follow.
\<close>

lemma parse_dhcp_children_step:
  "\<exists>r. (\<forall>rest. parse_dhcp_children X (child # rest) d lg =
            (case r of
               Inl res \<Rightarrow> res
             | Inr (d', lg') \<Rightarrow> parse_dhcp_children X rest d' lg'))
      \<and> (\<forall>res. r = Inl res \<longrightarrow> fst res < 0)"
proof (cases "node_name child = ''prefer-server'' \<and> xml_node_get_attr child ''ip'' \<noteq> None")
  case False
  show ?thesis
    by (rule exI [of _ "Inr (fst (dhcp_allow_update X child (dhcp_simple_elements X child d) lg),
          snd (dhcp_allow_update X child (dhcp_simple_elements X child d) lg))"])
      (simp add: parse_dhcp_children_other [OF False] case_prod_beta del: parse_dhcp_children.simps)
next
  case True
  then have n: "node_name child = ''prefer-server''"
    by simp
  from True obtain ip where ip: "xml_node_get_attr child ''ip'' = Some ip"
    by auto
  from True have ipne: "xml_node_get_attr child ''ip'' \<noteq> None"
    by simp
  show ?thesis
  proof (cases "NI_DHCP_SERVER_PREFERENCES_MAX X \<le> num_preferred_servers d")
    case full: True
    show ?thesis
      by (rule exI [of _ "Inr (dhcp_simple_elements X child d,
            lg @ [Ni_warn ''config: too many <prefer-server> elements''])"])
        (simp add: parse_dhcp_children_full [OF n ipne full] del: parse_dhcp_children.simps)
  next
    case False
    then have room: "num_preferred_servers d < NI_DHCP_SERVER_PREFERENCES_MAX X"
      by simp
    show ?thesis
    proof (cases "ni_address_parse X ip")
      case None
      show ?thesis
        by (rule exI [of _ "Inl (- 1, d\<lparr>num_preferred_servers := num_preferred_servers d + 1\<rparr>,
              lg @ [Ni_error (''config: unable to parse <prefer-server ip='' @ [CHR 0x22]
                      @ ip @ [CHR 0x22])])"])
          (simp add: parse_dhcp_children_address_failure [OF n ip None room]
            del: parse_dhcp_children.simps)
    next
      case (Some address)
      show ?thesis
        by (rule exI [of _ "Inr (d\<lparr>num_preferred_servers := num_preferred_servers d + 1,
              preferred_server := (preferred_server d)
                [num_preferred_servers d :=
                   \<lparr>pref_address = address,
                    weight = fst (prefer_server_weight X (xml_node_get_attr child ''weight'') lg)\<rparr>]\<rparr>,
              snd (prefer_server_weight X (xml_node_get_attr child ''weight'') lg))"])
          (simp add: prefer_server_step [OF n ip Some room] del: parse_dhcp_children.simps)
    qed
  qed
qed

lemma parse_dhcp_children_append:
  "parse_dhcp_children X (cs @ ds) d lg =
     (case parse_dhcp_children X cs d lg of
        (rc, d1, lg1) \<Rightarrow> if rc < 0 then (rc, d1, lg1) else parse_dhcp_children X ds d1 lg1)"
proof (induction cs arbitrary: d lg)
  case Nil
  then show ?case by simp
next
  case (Cons child cs)
  from parse_dhcp_children_step [of X child d lg]
  obtain r where step: "\<And>rest. parse_dhcp_children X (child # rest) d lg =
            (case r of
               Inl res \<Rightarrow> res
             | Inr (d', lg') \<Rightarrow> parse_dhcp_children X rest d' lg')"
    and failure: "\<And>res. r = Inl res \<Longrightarrow> fst res < 0"
    by blast
  show ?case
  proof (cases r)
    case (Inl res)
    with step [of "cs @ ds"] step [of cs] failure [OF Inl] show ?thesis
      by (auto simp del: parse_dhcp_children.simps split: prod.splits)
  next
    case (Inr p)
    obtain d' lg' where p: "p = (d', lg')"
      by (cases p)
    with Inr step [of "cs @ ds"] step [of cs] Cons.IH [of d' lg'] show ?thesis
      by (simp del: parse_dhcp_children.simps)
  qed
qed

lemma ni_config_parse_addrconf_dhcp_append:
  "ni_config_parse_addrconf_dhcp X d (Xml_node nm at cd (cs @ ds)) lg =
     (case ni_config_parse_addrconf_dhcp X d (Xml_node nm at cd cs) lg of
        (rc, d1, lg1) \<Rightarrow>
          if rc < 0 then (rc, d1, lg1)
          else ni_config_parse_addrconf_dhcp X d1 (Xml_node nm at cd ds) lg1)"
  by (simp add: ni_config_parse_addrconf_dhcp_def parse_dhcp_children_append split: prod.splits)

text \<open>A stored \<^verbatim>\<open><prefer-server>\<close> element as the only child.\<close>

lemma prefer_server_single:
  assumes "node_name child = ''prefer-server''"
    and "xml_node_get_attr child ''ip'' = Some ip"
    and "ni_address_parse X ip = Some address"
    and "num_preferred_servers d < NI_DHCP_SERVER_PREFERENCES_MAX X"
  shows "ni_config_parse_addrconf_dhcp X d (Xml_node nm at cd [child]) lg =
     (0,
      d\<lparr>num_preferred_servers := num_preferred_servers d + 1,
        preferred_server := (preferred_server d)
          [num_preferred_servers d :=
             \<lparr>pref_address = address,
              weight = fst (prefer_server_weight X (xml_node_get_attr child ''weight'') lg)\<rparr>]\<rparr>,
      snd (prefer_server_weight X (xml_node_get_attr child ''weight'') lg))"
  using prefer_server_step [OF assms, of "[]" lg]
  by (simp add: ni_config_parse_addrconf_dhcp_def del: parse_dhcp_children.simps(2))




text \<open>
  Claim C9, as amended. A stored \<^verbatim>\<open><prefer-server>\<close> element whose \<open>weight\<close> attribute is
  present and neither "always" nor "never", as the only child: whenever the integer read
  by \<^verbatim>\<open>strtol\<close> is at most 100 and not below the least \<^verbatim>\<open>int\<close>, the parse returns 0, logs
  nothing, and the weight stored in the next entry of the table is that integer. Within
  the range of \<^verbatim>\<open>int\<close> there is no lower bound. Children are handled in document order, each
  from the configuration and log left by the children before it, up to the first failure.
\<close>

theorem prefer_server_weight_no_lower_bound:
  assumes name: "node_name child = ''prefer-server''"
    and ip: "xml_node_get_attr child ''ip'' = Some ip"
    and address: "ni_address_parse X ip = Some address"
    and room: "num_preferred_servers d < NI_DHCP_SERVER_PREFERENCES_MAX X"
    and array: "length (preferred_server d) = NI_DHCP_SERVER_PREFERENCES_MAX X"
    and attr: "xml_node_get_attr child ''weight'' = Some a"
    and token: "a \<noteq> ''always''" "a \<noteq> ''never''"
    and least: "- 2147483648 \<le> strtol X a"
    and small: "strtol X a \<le> 100"
  shows "ni_config_parse_addrconf_dhcp X d (Xml_node nm at cd [child]) lg =
        (0,
         d\<lparr>num_preferred_servers := num_preferred_servers d + 1,
           preferred_server := (preferred_server d)
             [num_preferred_servers d := \<lparr>pref_address = address, weight = strtol X a\<rparr>]\<rparr>,
         lg)
    \<and> weight ((preferred_server d)
          [num_preferred_servers d := \<lparr>pref_address = address, weight = strtol X a\<rparr>]
          ! num_preferred_servers d) = strtol X a
    \<and> (\<forall>cs ds d0 lg0.
          ni_config_parse_addrconf_dhcp X d0 (Xml_node nm at cd (cs @ ds)) lg0 =
            (case ni_config_parse_addrconf_dhcp X d0 (Xml_node nm at cd cs) lg0 of
               (rc, d1, lg1) \<Rightarrow>
                 if rc < 0 then (rc, d1, lg1)
                 else ni_config_parse_addrconf_dhcp X d1 (Xml_node nm at cd ds) lg1))"
proof -
  from least small have "long_to_int (strtol X a) = strtol X a"
    by (simp add: long_to_int_in_range)
  with attr token small
  have r: "prefer_server_weight X (xml_node_get_attr child ''weight'') lg = (strtol X a, lg)"
    by (simp add: prefer_server_weight_def Let_def)
  from prefer_server_single [OF name ip address room, of nm at cd lg]
  have single: "ni_config_parse_addrconf_dhcp X d (Xml_node nm at cd [child]) lg =
        (0,
         d\<lparr>num_preferred_servers := num_preferred_servers d + 1,
           preferred_server := (preferred_server d)
             [num_preferred_servers d := \<lparr>pref_address = address, weight = strtol X a\<rparr>]\<rparr>,
         lg)"
    by (simp only: r fst_conv snd_conv)
  from room array
  have entry: "weight ((preferred_server d)
          [num_preferred_servers d := \<lparr>pref_address = address, weight = strtol X a\<rparr>]
          ! num_preferred_servers d) = strtol X a"
    by simp
  have seq: "\<forall>cs ds d0 lg0.
          ni_config_parse_addrconf_dhcp X d0 (Xml_node nm at cd (cs @ ds)) lg0 =
            (case ni_config_parse_addrconf_dhcp X d0 (Xml_node nm at cd cs) lg0 of
               (rc, d1, lg1) \<Rightarrow>
                 if rc < 0 then (rc, d1, lg1)
                 else ni_config_parse_addrconf_dhcp X d1 (Xml_node nm at cd ds) lg1)"
    by (intro allI) (rule ni_config_parse_addrconf_dhcp_append)
  from single entry seq show ?thesis
    by (intro conjI)
qed

text \<open>
  Claim C9 as stated fails: for the token -2147483649, which \<^verbatim>\<open>strtol\<close> reads as that number
  (at most 100), the weight stored is 100 and the clamping warning is logged.
\<close>

theorem prefer_server_weight_below_int_counterexample:
  "strtol example_externals ''-2147483649'' = - 2147483649
   \<and> ni_config_parse_addrconf_dhcp example_externals example_dhcp
       (Xml_node ''dhcp'' [] None [prefer_server_node ''-2147483649'']) []
     = (0,
        example_dhcp\<lparr>num_preferred_servers := 1,
          preferred_server := [\<lparr>pref_address = [10, 0, 0, 1], weight = 100\<rparr>,
                               \<lparr>pref_address = [], weight = 0\<rparr>]\<rparr>,
        [Ni_warn ''preferred dhcp server weight exceeds max, clamping to 100''])"
proof -
  have s: "strtol example_externals ''-2147483649'' = - 2147483649"
    by (simp add: example_externals_sel example_strtol_values)
  have r: "prefer_server_weight example_externals
      (xml_node_get_attr (prefer_server_node ''-2147483649'') ''weight'') []
      = (100, [Ni_warn ''preferred dhcp server weight exceeds max, clamping to 100''])"
    by (simp add: prefer_server_weight_def prefer_server_node_facts(3) s long_to_int_values)
  from prefer_server_single [where child = "prefer_server_node ''-2147483649''"
      and nm = "''dhcp''" and at = "[]" and cd = None and lg = "[]",
      OF prefer_server_node_facts(1,2,4,5)]
  show ?thesis
    by (simp add: r s example_dhcp_eq)
qed

theorem prefer_server_weight_no_lower_bound_witness:
  "ni_config_parse_addrconf_dhcp example_externals example_dhcp
     (Xml_node ''dhcp'' [] None [prefer_server_node ''-42'']) []
   = (0,
      example_dhcp\<lparr>num_preferred_servers := 1,
        preferred_server := [\<lparr>pref_address = [10, 0, 0, 1], weight = - 42\<rparr>, \<lparr>pref_address = [], weight = 0\<rparr>]\<rparr>,
      [])"
proof -
  have s: "strtol example_externals ''-42'' = - 42"
    by (simp add: example_externals_sel example_strtol_values)
  have least: "- 2147483648 \<le> strtol example_externals ''-42''"
    by (simp add: s)
  have small: "strtol example_externals ''-42'' \<le> 100"
    by (simp add: s)
  have token: "''-42'' \<noteq> ''always''" "''-42'' \<noteq> ''never''"
    by simp_all
  from prefer_server_weight_no_lower_bound [where child = "prefer_server_node ''-42''"
      and nm = "''dhcp''" and at = "[]" and cd = None and lg = "[]",
      OF prefer_server_node_facts(1,2,4,5,6) prefer_server_node_facts(3) token least small]
  show ?thesis
    by (simp add: s example_dhcp_eq)
qed

subsection \<open>The bound on the server preferences\<close>






section \<open>Properties: loading the configuration\<close>

lemma ni_config_parse_xpath_rc:
  "fst (ni_config_parse_xpath X expr lg) < 0 \<longleftrightarrow> xpath_format_parse X expr = None"
  by (simp add: ni_config_parse_xpath_def split: option.splits)

lemma ni_config_parse_xpath_rc':
  "ni_config_parse_xpath X expr lg = (rc, fmt, lg') \<Longrightarrow> rc < 0 \<longleftrightarrow> xpath_format_parse X expr = None"
  using ni_config_parse_xpath_rc [of X expr lg] by simp

lemma ni_config_parse_xpath_fails:
  "xpath_format_parse X expr = None \<Longrightarrow>
   ni_config_parse_xpath X expr lg =
     (- 1, None,
      lg @ [Ni_error (''cannot parse configuration: bad xpath expression '' @ [CHR 0x22]
              @ expr @ [CHR 0x22])])"
  by (simp add: ni_config_parse_xpath_def)

lemma ni_config_parse_xpath_succeeds:
  "xpath_format_parse X expr = Some fmt \<Longrightarrow> ni_config_parse_xpath X expr lg = (0, Some fmt, lg)"
  by (simp add: ni_config_parse_xpath_def)

lemma parse_extension_children_error:
  assumes "child_load_error X child"
  shows "fst (parse_extension_children X (child # rest) ex lg) < 0"
proof -
  from assms consider
      (action_name) "node_name child = ''action''" "xml_node_get_attr child ''name'' = None"
    | (action_command) name command where "node_name child = ''action''"
        "xml_node_get_attr child ''name'' = Some name"
        "xml_node_get_attr child ''command'' = Some command" "xpath_format_parse X command = None"
    | (putenv_missing) "node_name child = ''environment''" "xml_node_get_attr child ''putenv'' = None"
    | (putenv_syntax) putenv where "node_name child = ''environment''"
        "xml_node_get_attr child ''putenv'' = Some putenv" "xpath_format_parse X putenv = None"
    by (auto simp: child_load_error_def split: option.splits)
  then show ?thesis
  proof cases
    case action_name
    then show ?thesis by simp
  next
    case action_command
    then show ?thesis by (simp add: ni_config_parse_xpath_fails Let_def)
  next
    case putenv_missing
    then show ?thesis by simp
  next
    case putenv_syntax
    then show ?thesis by (simp add: ni_config_parse_xpath_fails)
  qed
qed

lemma parse_extension_children_next:
  assumes "\<not> child_load_error X child"
  shows "\<exists>ex' lg'. parse_extension_children X (child # rest) ex lg =
     parse_extension_children X rest ex' lg'"
proof -
  consider (action) "node_name child = ''action''"
    | (environment) "node_name child = ''environment''"
    | (other) "node_name child \<noteq> ''action''" "node_name child \<noteq> ''environment''"
    by blast
  then show ?thesis
  proof cases
    case action
    with assms obtain name where name: "xml_node_get_attr child ''name'' = Some name"
      by (auto simp: child_load_error_def split: option.splits)
    show ?thesis
    proof (cases "xml_node_get_attr child ''command''")
      case None
      with action name show ?thesis
        by (simp add: Let_def) blast
    next
      case (Some command)
      with assms action name obtain fmt where "xpath_format_parse X command = Some fmt"
        by (auto simp: child_load_error_def)
      with action name Some show ?thesis
        by (simp add: Let_def ni_config_parse_xpath_succeeds) blast
    qed
  next
    case environment
    with assms obtain putenv fmt where "xml_node_get_attr child ''putenv'' = Some putenv"
      "xpath_format_parse X putenv = Some fmt"
      by (auto simp: child_load_error_def split: option.splits)
    with environment show ?thesis
      by (simp add: ni_config_parse_xpath_succeeds) blast
  next
    case other
    then show ?thesis
      by simp blast
  qed
qed

lemma parse_extension_children_rc:
  "fst (parse_extension_children X children ex lg) < 0 \<longleftrightarrow>
     (\<exists>child \<in> set children. child_load_error X child)"
proof (induction children arbitrary: ex lg)
  case Nil
  then show ?case by simp
next
  case (Cons child rest)
  show ?case
  proof (cases "child_load_error X child")
    case True
    with parse_extension_children_error [OF True, of rest ex lg] show ?thesis
      by simp
  next
    case False
    from parse_extension_children_next [OF False, of rest ex lg]
    obtain ex' lg' where "parse_extension_children X (child # rest) ex lg =
        parse_extension_children X rest ex' lg'"
      by blast
    with Cons.IH [of ex' lg'] False show ?thesis
      by (simp del: parse_extension_children.simps)
  qed
qed

lemma parse_extension_node_rc:
  "fst (parse_extension_node X node name type_code lg) < 0 \<longleftrightarrow> extension_body_load_error X node"
proof (cases "case xml_node_get_child node ''pidfile'' of
              Some child \<Rightarrow> xml_node_get_attr child ''path''
            | None \<Rightarrow> None")
  case None
  then show ?thesis
    by (simp add: parse_extension_node_def extension_body_load_error_def Let_def
        parse_extension_children_rc)
next
  case (Some path)
  show ?thesis
  proof (cases "xpath_format_parse X path")
    case None
    with Some show ?thesis
      by (simp add: parse_extension_node_def extension_body_load_error_def Let_def
          ni_config_parse_xpath_fails)
  next
    case (Some fmt)
    with \<open>_ = Some path\<close> show ?thesis
      by (simp add: parse_extension_node_def extension_body_load_error_def Let_def
          ni_config_parse_xpath_succeeds parse_extension_children_rc)
  qed
qed

lemma parse_extension_node_rc':
  "parse_extension_node X node name type_code lg = (rc, ex, lg') \<Longrightarrow>
   rc < 0 \<longleftrightarrow> extension_body_load_error X node"
  using parse_extension_node_rc [of X node name type_code lg] by simp

lemma parse_extension_nodes_error:
  "extension_load_error X map_type node \<Longrightarrow>
   fst (parse_extension_nodes X exclass map_type (node # rest) list lg) < 0"
  by (auto simp: extension_load_error_def dest: parse_extension_node_rc'
      split: option.splits prod.splits)

lemma parse_extension_nodes_next:
  "\<not> extension_load_error X map_type node \<Longrightarrow>
   \<exists>list' lg'. parse_extension_nodes X exclass map_type (node # rest) list lg =
     parse_extension_nodes X exclass map_type rest list' lg'"
  by (auto simp: extension_load_error_def dest: parse_extension_node_rc'
      split: option.splits prod.splits)

lemma parse_extension_nodes_rc:
  "fst (parse_extension_nodes X exclass map_type nodes list lg) < 0 \<longleftrightarrow>
     (\<exists>e \<in> set nodes. extension_load_error X map_type e)"
proof (induction nodes arbitrary: list lg)
  case Nil
  then show ?case by simp
next
  case (Cons node rest)
  show ?case
  proof (cases "extension_load_error X map_type node")
    case True
    with parse_extension_nodes_error [OF True, of exclass rest list lg] show ?thesis
      by simp
  next
    case False
    from parse_extension_nodes_next [OF False, of exclass rest list lg]
    obtain list' lg' where "parse_extension_nodes X exclass map_type (node # rest) list lg =
        parse_extension_nodes X exclass map_type rest list' lg'"
      by blast
    with Cons.IH [of list' lg'] False show ?thesis
      by (simp del: parse_extension_nodes.simps)
  qed
qed

lemma ni_config_parse_extensions_rc:
  "fst (ni_config_parse_extensions X list node exclass map_type lg) < 0 \<longleftrightarrow>
     category_load_error X node exclass map_type"
  by (simp add: ni_config_parse_extensions_def category_load_error_def parse_extension_nodes_rc
      split: option.splits)

lemma ni_config_parse_extensions_rc':
  "ni_config_parse_extensions X list node exclass map_type lg = (rc, l, lg') \<Longrightarrow>
   rc < 0 \<longleftrightarrow> category_load_error X node exclass map_type"
  using ni_config_parse_extensions_rc [of X list node exclass map_type lg] by simp

lemma parse_extension_categories_rc:
  "fst (parse_extension_categories X node conf lg) < 0 \<longleftrightarrow> config_load_error X node"
proof -
  obtain rc1 l1 lg1 where r1: "ni_config_parse_extensions X (addrconf_extensions conf) node ''addrconf''
             (Some (ni_addrconf_name_to_type X)) lg = (rc1, l1, lg1)"
    by (cases "ni_config_parse_extensions X (addrconf_extensions conf) node ''addrconf''
             (Some (ni_addrconf_name_to_type X)) lg") blast
  obtain rc2 l2 lg2 where r2: "ni_config_parse_extensions X (linktype_extensions conf) node ''linktype''
                    (Some (ni_linktype_name_to_type X)) lg1 = (rc2, l2, lg2)"
    by (cases "ni_config_parse_extensions X (linktype_extensions conf) node ''linktype''
                    (Some (ni_linktype_name_to_type X)) lg1") blast
  obtain rc3 l3 lg3 where r3: "ni_config_parse_extensions X (api_extensions conf) node ''api'' None lg2
      = (rc3, l3, lg3)"
    by (cases "ni_config_parse_extensions X (api_extensions conf) node ''api'' None lg2") blast
  note e = ni_config_parse_extensions_rc' [OF r1] ni_config_parse_extensions_rc' [OF r2]
    ni_config_parse_extensions_rc' [OF r3]
  have "fst (parse_extension_categories X node conf lg) < 0 \<longleftrightarrow> rc1 < 0 \<or> rc2 < 0 \<or> rc3 < 0"
    by (simp add: parse_extension_categories_def r1 r2 r3)
  with e show ?thesis
    by (simp add: config_load_error_def)
qed

lemma ni_config_parse_afinfo_rc: "fst (ni_config_parse_afinfo afi afname node) = 0"
  by (simp add: ni_config_parse_afinfo_def Let_def split: option.splits)

lemma ni_config_parse_fslocation_rc: "fst (ni_config_parse_fslocation X fsloc name node) = 0"
  by (simp add: ni_config_parse_fslocation_def Let_def split: option.splits)

lemma parse_extension_categories_rc':
  "parse_extension_categories X node conf lg = (rc, conf', lg') \<Longrightarrow>
   rc < 0 \<longleftrightarrow> config_load_error X node"
  using parse_extension_categories_rc [of X node conf lg] by simp

lemma parse_config_globals_rc: "fst (parse_config_globals X node) = 0"
  by (simp add: parse_config_globals_def Let_def ni_config_parse_afinfo_rc
      ni_config_parse_fslocation_rc split: option.splits)

text \<open>On the document with its \<^verbatim>\<open><config>\<close> node, \<^verbatim>\<open>ni_config_parse\<close> by stages.\<close>

lemma ni_config_parse_stages:
  assumes "xml_node_get_child (root d) ''config'' = Some node"
    and "parse_config_globals X node = (rc3, conf3)"
    and "parse_config_addrconf X node conf3 lg = (rc4, conf4, lg4)"
    and "parse_extension_categories X node
           (conf4\<lparr>default_allow_update :=
                    default_allow_update conf4 AND ni_system_update_capabilities X\<rparr>) lg4
         = (rc5, conf5, lg5)"
  shows "ni_config_parse X filename (Some d) callbacks lg =
     (if rc4 < 0 then (None, callbacks, lg4)
      else if rc5 < 0 then (None, callbacks, lg5)
      else (Some conf5,
            fst (foldl (register_api_extension X) (callbacks, lg5) (api_extensions conf5)),
            snd (foldl (register_api_extension X) (callbacks, lg5) (api_extensions conf5))))"
proof -
  from assms(2) parse_config_globals_rc [of X node] have "rc3 = 0"
    by simp
  with assms show ?thesis
    by (simp add: ni_config_parse_def split: prod.splits)
qed

text \<open>
  Claim C7. \<^verbatim>\<open>ni_config_parse\<close> installs nothing when it fails: whenever it returns NULL the
  update callbacks registered with the REST nodes are those from before the call. And it
  fails whenever the document has a load error: when one of the three extension
  categories of the \<^verbatim>\<open><config>\<close> node holds an extension element without name (or without type
  where types are mapped), or an extension of a recognized type with an action without
  name, an environment element without putenv, or a pidfile path, command or putenv
  expression that does not parse.
\<close>

theorem config_parse_atomic:
  "(fst (ni_config_parse X filename doc callbacks lg) = None \<longrightarrow>
      fst (snd (ni_config_parse X filename doc callbacks lg)) = callbacks)
   \<and> (\<forall>d node. doc = Some d \<and> xml_node_get_child (root d) ''config'' = Some node
         \<and> config_load_error X node \<longrightarrow>
       fst (ni_config_parse X filename doc callbacks lg) = None)"
proof (cases doc)
  case None
  then show ?thesis
    by (simp add: ni_config_parse_def)
next
  case (Some d)
  show ?thesis
  proof (cases "xml_node_get_child (root d) ''config''")
    case None
    with Some show ?thesis
      by (simp add: ni_config_parse_def)
  next
    case node: (Some node)
    obtain rc3 conf3 where g: "parse_config_globals X node = (rc3, conf3)"
      by (cases "parse_config_globals X node") blast
    obtain rc4 conf4 lg4 where a: "parse_config_addrconf X node conf3 lg = (rc4, conf4, lg4)"
      by (cases "parse_config_addrconf X node conf3 lg") blast
    obtain rc5 conf5 lg5 where e: "parse_extension_categories X node
           (conf4\<lparr>default_allow_update :=
                    default_allow_update conf4 AND ni_system_update_capabilities X\<rparr>) lg4
         = (rc5, conf5, lg5)"
      by (cases "parse_extension_categories X node
           (conf4\<lparr>default_allow_update :=
                    default_allow_update conf4 AND ni_system_update_capabilities X\<rparr>) lg4") blast
    note stages = ni_config_parse_stages [OF node g a e, of filename callbacks]
    from parse_extension_categories_rc' [OF e]
    have err: "config_load_error X node \<longrightarrow> rc5 < 0"
      by simp
    from Some node stages err show ?thesis
      by simp
  qed
qed

lemma example_config_child:
  "xml_node_get_child (root (example_document (example_config_node as cs))) ''config''
     = Some (example_config_node as cs)"
  by (simp add: example_document_def example_config_node_def xml_node_get_child_def)

lemma example_config_load_error:
  "config_load_error example_externals (example_config_node [] cs)"
  "config_load_error example_externals
     (example_config_node [(''name'', ''x'')] [Xml_node ''environment'' [] None []])"
  "\<not> config_load_error example_externals
     (example_config_node [(''name'', ''x'')] [Xml_node ''environment'' [(''putenv'', ''A=b'')] None []])"
  by (simp_all add: config_load_error_def category_load_error_def example_config_node_def
      xml_node_get_child_def extension_load_error_def xml_node_get_attr_def
      extension_body_load_error_def child_load_error_def example_externals_sel)

lemma example_config_loads:
  "fst (ni_config_parse example_externals ''config.xml''
     (Some (example_document
        (example_config_node [(''name'', ''x'')]
           [Xml_node ''environment'' [(''putenv'', ''A=b'')] None []]))) [] []) \<noteq> None"
proof -
  let ?node = "example_config_node [(''name'', ''x'')]
           [Xml_node ''environment'' [(''putenv'', ''A=b'')] None []]"
  obtain rc3 conf3 where g: "parse_config_globals example_externals ?node = (rc3, conf3)"
    by (cases "parse_config_globals example_externals ?node") blast
  have a: "parse_config_addrconf example_externals ?node conf3 [] = (0, conf3, [])"
    by (simp add: parse_config_addrconf_def example_config_node_def xml_node_get_child_def)
  obtain rc5 conf5 lg5 where e: "parse_extension_categories example_externals ?node
           (conf3\<lparr>default_allow_update :=
                    default_allow_update conf3 AND ni_system_update_capabilities example_externals\<rparr>) []
         = (rc5, conf5, lg5)"
    by (cases "parse_extension_categories example_externals ?node
           (conf3\<lparr>default_allow_update :=
                    default_allow_update conf3 AND ni_system_update_capabilities example_externals\<rparr>) []")
      blast
  from parse_extension_categories_rc' [OF e] example_config_load_error(3) have "\<not> rc5 < 0"
    by simp
  with ni_config_parse_stages [OF example_config_child g a e, of "''config.xml''" "[]"]
  show ?thesis
    by simp
qed

text \<open>
  The example document loads when its second extension is complete, so failure is not
  all that \<^verbatim>\<open>ni_config_parse\<close> returns; the instance below is the extension without name.
\<close>

theorem config_parse_atomic_witness:
  "xml_node_get_child (root (example_document (example_config_node [] []))) ''config''
     = Some (example_config_node [] [])
   \<and> config_load_error example_externals (example_config_node [] [])
   \<and> fst (ni_config_parse example_externals ''config.xml''
            (Some (example_document (example_config_node [] []))) [] []) = None
   \<and> fst (snd (ni_config_parse example_externals ''config.xml''
            (Some (example_document (example_config_node [] []))) [] [])) = []"
proof -
  note child = example_config_child [of "[]" "[]"]
  note err = example_config_load_error(1) [of "[]"]
  note atomic = config_parse_atomic [of example_externals "''config.xml''"
      "Some (example_document (example_config_node [] []))" "[]" "[]"]
  note failure = atomic [THEN conjunct2, rule_format, OF conjI [OF refl conjI [OF child err]]]
  note unchanged = atomic [THEN conjunct1, rule_format, OF failure]
  show ?thesis
    by (intro conjI) (fact child, fact err, fact failure, fact unchanged)
qed

end
